theory Spec2Isabelle
  imports Complex_Main "HOL-Library.Word" "HOL-Library.AList" "HOL-Library.Monad_Syntax"
begin

unbundle bit_operations_syntax

section \<open>Data model of \<^verbatim>\<open>src/file-change-cache.js\<close>\<close>

text \<open>
  A JavaScript string is a sequence of UTF-16 code units and a Buffer a sequence of bytes.
  \<open>js\<close> turns an ASCII literal of the source into a JavaScript string.
\<close>

type_synonym bytes = "8 word list"
type_synonym jsstring = "16 word list"

definition js :: "string \<Rightarrow> jsstring" where
  "js s = map of_char s"

text \<open>
  The values the source passes around untyped: the first constructor argument \<open>appRoot\<close>
  (a string, or whatever the caller hands in) and the value returned by
  \<open>detectFileEncoding\<close> (\<open>true\<close>, an encoding name, or \<open>undefined\<close> from \<open>_.find\<close>).
\<close>

datatype jsarg = JUndefined | JBool bool | JString jsstring

datatype encoding = utf8 | utf16le

datatype detected = DetTrue | DetEncoding encoding | DetUndefined

datatype js_error =
    Error jsstring  \<comment> \<open>\<open>throw new Error(message)\<close>\<close>
  | ENOENT jsstring  \<comment> \<open>no such file\<close>
  | EISDIR jsstring  \<comment> \<open>read or write of something that is not a regular file\<close>
  | TypeError  \<comment> \<open>\<open>fs.readFileSync(path, options)\<close> with options neither string nor object\<close>
  | ZlibError  \<comment> \<open>\<open>zlib.gunzip\<close> rejects its input\<close>
  | SyntaxError  \<comment> \<open>\<open>JSON.parse\<close> rejects its input\<close>

record info =
  info_hash :: jsstring
  info_isMinified :: bool
  info_isInNodeModules :: bool
  info_hasSourceMap :: bool
  info_isFileBinary :: bool

record cache_entry =
  entry_ctime :: int
  entry_size :: nat
  entry_info :: info

text \<open>
  \<open>this.changeCache\<close> is a plain object (\<open>{}\<close>, or what \<open>JSON.parse\<close> returned) used as
  a dictionary from cache key to entry. Its own properties are an association list
  (\<open>changeCache\<close>). Its prototype is \<open>Object.prototype\<close> (\<open>None\<close>) until an assignment to
  the key \<open>__proto__\<close> installs an entry object as the prototype (\<open>Some e\<close>; the prototype
  of \<open>e\<close> is \<open>Object.prototype\<close>).
\<close>

type_synonym change_cache = "(jsstring \<times> cache_entry) list"

record cache =
  appRoot :: jsarg
  failOnCacheMiss :: bool
  changeCache :: change_cache
  changeCache_prototype :: "cache_entry option"

text \<open>
  What \<open>this.changeCache[cacheKey]\<close> can evaluate to: \<open>undefined\<close>, an entry object, a
  number or an info object (a property of the entry installed as prototype), or a value
  inherited from \<open>Object.prototype\<close> (a function, or \<open>Object.prototype\<close> itself).
\<close>

datatype jsvalue =
    Undefined
  | EntryObject cache_entry
  | NumberValue int
  | InfoObject info
  | Inherited

text \<open>
  What a lookup returns: \<open>cacheEntry.info\<close> (an info object, or \<open>undefined\<close> when the
  value read has no such property), or \<open>info\<close> extended with the content.
\<close>

datatype lookup_result =
    ReturnsUndefined
  | Info info
  | WithSourceCode jsstring info
  | WithBinaryData bytes info

record hash_result =
  sourceCode :: "jsstring option"
  digest :: jsstring
  binaryData :: "bytes option"

subsection \<open>The file system\<close>

text \<open>
  The file system is a map from path to node, together with the list of calls made to
  it (the instrumentation the specification asks for) and the clock that stamps writes.
\<close>

record file_node =
  node_ctime :: int
  node_size :: nat
  node_isFile :: bool
  node_content :: bytes

datatype fs_call =
    StatCall jsstring
  | ReadCall jsstring "detected option"
  | WriteCall jsstring bytes

record world =
  files :: "jsstring \<rightharpoonup> file_node"
  calls :: "fs_call list"
  clock :: int

section \<open>Platform functions the source calls\<close>

subsection \<open>Strings\<close>

definition truthy :: "jsarg \<Rightarrow> bool" where
  "truthy v = (case v of JUndefined \<Rightarrow> False | JBool b \<Rightarrow> b | JString s \<Rightarrow> s \<noteq> [])"

definition toString :: "jsarg \<Rightarrow> jsstring" where
  "toString v = (case v of JUndefined \<Rightarrow> js ''undefined''
                 | JBool b \<Rightarrow> (if b then js ''true'' else js ''false'')
                 | JString s \<Rightarrow> s)"

text \<open>\<open>str.replace(pattern, '')\<close> with a string pattern: the first occurrence is removed.\<close>

fun replace_first :: "jsstring \<Rightarrow> jsstring \<Rightarrow> jsstring" where
  "replace_first pat [] = []"
| "replace_first pat (c # cs) =
     (if take (length pat) (c # cs) = pat then drop (length pat) (c # cs)
      else c # replace_first pat cs)"

text \<open>\<open>str.lastIndexOf(needle)\<close>: the last index at which \<open>needle\<close> starts, or \<open>-1\<close>.\<close>

fun indexes_of :: "jsstring \<Rightarrow> nat \<Rightarrow> jsstring \<Rightarrow> nat list" where
  "indexes_of needle i [] = (if needle = [] then [i] else [])"
| "indexes_of needle i (c # cs) =
     (if take (length needle) (c # cs) = needle then [i] else []) @ indexes_of needle (i + 1) cs"

definition lastIndexOf :: "jsstring \<Rightarrow> jsstring \<Rightarrow> int" where
  "lastIndexOf str needle =
     (case rev (indexes_of needle 0 str) of [] \<Rightarrow> - 1 | i # _ \<Rightarrow> int i)"

text \<open>
  A regular expression without anchors matches when it matches at some position.
  \<open>/i\<close> folds the ASCII letters only (a character outside ASCII never canonicalises
  to an ASCII one).
\<close>

fun search :: "(jsstring \<Rightarrow> bool) \<Rightarrow> jsstring \<Rightarrow> bool" where
  "search P [] = P []"
| "search P (c # cs) = (P (c # cs) \<or> search P cs)"

definition lower :: "16 word \<Rightarrow> 16 word" where
  "lower c = (if 0x41 \<le> c \<and> c \<le> 0x5A then c + 0x20 else c)"

definition is_sep :: "16 word \<Rightarrow> bool" where
  "is_sep c = (c = 0x5C \<or> c = 0x2F)"

subsection \<open>Buffers\<close>

text \<open>
  \<open>buf.toString('utf8')\<close> decodes as the Encoding Standard prescribes: a well-formed
  sequence gives its code point (one code unit, or a surrogate pair above the basic
  plane); every maximal ill-formed part (a byte that starts no sequence, or the bytes
  of a sequence up to the point where it breaks or the input ends) gives one U+FFFD,
  and the byte that broke the sequence is decoded again. The decoder's state is the
  number of bytes still needed, the code point so far and the bounds of the next byte.
\<close>

definition code_units :: "nat \<Rightarrow> jsstring" where
  "code_units cp =
     (if cp < 0x10000 then [of_nat cp]
      else [of_nat (0xD800 + (cp - 0x10000) div 1024), of_nat (0xDC00 + (cp - 0x10000) mod 1024)])"

function utf8_decoder :: "nat \<Rightarrow> nat \<Rightarrow> 8 word \<Rightarrow> 8 word \<Rightarrow> bytes \<Rightarrow> jsstring" where
  "utf8_decoder needed cp lo hi [] = (if needed = 0 then [] else [0xFFFD])"
| "utf8_decoder needed cp lo hi (b # bs) =
     (if needed = 0 then
        (if b \<le> 0x7F then ucast b # utf8_decoder 0 0 0x80 0xBF bs
         else if 0xC2 \<le> b \<and> b \<le> 0xDF then utf8_decoder 1 (unat b - 0xC0) 0x80 0xBF bs
         else if 0xE0 \<le> b \<and> b \<le> 0xEF then
           utf8_decoder 2 (unat b - 0xE0) (if b = 0xE0 then 0xA0 else 0x80)
             (if b = 0xED then 0x9F else 0xBF) bs
         else if 0xF0 \<le> b \<and> b \<le> 0xF4 then
           utf8_decoder 3 (unat b - 0xF0) (if b = 0xF0 then 0x90 else 0x80)
             (if b = 0xF4 then 0x8F else 0xBF) bs
         else 0xFFFD # utf8_decoder 0 0 0x80 0xBF bs)
      else if \<not> (lo \<le> b \<and> b \<le> hi) then 0xFFFD # utf8_decoder 0 0 0x80 0xBF (b # bs)
      else if needed = 1 then code_units (cp * 64 + (unat b - 0x80)) @ utf8_decoder 0 0 0x80 0xBF bs
      else utf8_decoder (needed - 1) (cp * 64 + (unat b - 0x80)) 0x80 0xBF bs)"
  by pat_completeness auto
termination
  by (relation "measure (\<lambda>(needed, cp, lo, hi, bs). 2 * length bs + (if needed = 0 then 0 else 1))")
    auto

definition utf8_decode :: "bytes \<Rightarrow> jsstring" where
  "utf8_decode buf = utf8_decoder 0 0 0x80 0xBF buf"

text \<open>\<open>buf.toString('utf16le')\<close>: two bytes a code unit, low byte first; an odd last byte is dropped.\<close>

fun utf16le_decode :: "bytes \<Rightarrow> jsstring" where
  "utf16le_decode (lo # hi # bs) = (push_bit 8 (ucast hi) OR ucast lo) # utf16le_decode bs"
| "utf16le_decode _ = []"

definition buffer_toString :: "encoding \<Rightarrow> bytes \<Rightarrow> jsstring" where
  "buffer_toString x buf = (case x of utf8 \<Rightarrow> utf8_decode buf | utf16le \<Rightarrow> utf16le_decode buf)"

text \<open>
  The bytes of a string in an encoding: \<open>new Buffer(str)\<close> and
  \<open>hash.update(str, 'utf8')\<close> use UTF-8, where a surrogate pair is one code point of four
  bytes and a lone surrogate is written as U+FFFD.
\<close>

definition utf8_unit :: "16 word \<Rightarrow> bytes" where
  "utf8_unit c =
     (let n = unat c in
      if n < 0x80 then [of_nat n]
      else if n < 0x800 then [of_nat (0xC0 + n div 64), of_nat (0x80 + n mod 64)]
      else if 0xD800 \<le> n \<and> n \<le> 0xDFFF then [0xEF, 0xBF, 0xBD]
      else [of_nat (0xE0 + n div 4096), of_nat (0x80 + n div 64 mod 64), of_nat (0x80 + n mod 64)])"

definition utf8_pair :: "16 word \<Rightarrow> 16 word \<Rightarrow> bytes" where
  "utf8_pair hi lo =
     (let n = 0x10000 + (unat hi - 0xD800) * 1024 + (unat lo - 0xDC00) in
      [of_nat (0xF0 + n div 262144), of_nat (0x80 + n div 4096 mod 64),
       of_nat (0x80 + n div 64 mod 64), of_nat (0x80 + n mod 64)])"

fun utf8_encode :: "jsstring \<Rightarrow> bytes" where
  "utf8_encode [] = []"
| "utf8_encode [c] = utf8_unit c"
| "utf8_encode (c # d # cs) =
     (if 0xD800 \<le> c \<and> c \<le> 0xDBFF \<and> 0xDC00 \<le> d \<and> d \<le> 0xDFFF
      then utf8_pair c d @ utf8_encode cs
      else utf8_unit c @ utf8_encode (d # cs))"

fun utf16le_encode :: "jsstring \<Rightarrow> bytes" where
  "utf16le_encode [] = []"
| "utf16le_encode (c # cs) = ucast c # ucast (drop_bit 8 c) # utf16le_encode cs"

definition buffer_from :: "encoding \<Rightarrow> jsstring \<Rightarrow> bytes" where
  "buffer_from x str = (case x of utf8 \<Rightarrow> utf8_encode str | utf16le \<Rightarrow> utf16le_encode str)"

section \<open>The static classifiers\<close>

text \<open>
  \<open>contentsAreMinified\<close>: \<open>length\<close> is capped at 1024, and the loop that counts the
  newlines runs to \<open>source.length\<close>. The dividend is at most 1024, so the floating-point
  quotient compares with 80 as the exact one does; it is a rational here.
\<close>

fun countNewlines :: "jsstring \<Rightarrow> nat \<Rightarrow> nat" where
  "countNewlines [] newlineCount = newlineCount"
| "countNewlines (c # cs) newlineCount =
     countNewlines cs (if c = 0x0A then newlineCount + 1 else newlineCount)"

definition contentsAreMinified :: "jsstring \<Rightarrow> bool" where
  "contentsAreMinified source =
     (let length0 = (if length source > 1024 then 1024 else length source);
          newlineCount = countNewlines source 0
      in if newlineCount = 0 then length0 > 80
         else (let avgLineLength = rat_of_nat length0 / rat_of_nat newlineCount
               in avgLineLength > 80))"

text \<open>The minification heuristic in the words of the specification, section 4.2 step 5.\<close>

definition spec_isMinified :: "jsstring \<Rightarrow> bool" where
  "spec_isMinified text =
     (let window = take 1024 text;
          newlines = length (filter (\<lambda>c. c = 0x0A) window)
      in if newlines = 0 then length window > 80
         else rat_of_nat (length window) / rat_of_nat newlines > 80)"

definition node_modules_at :: "jsstring \<Rightarrow> bool" where
  "node_modules_at s =
     (case s of [] \<Rightarrow> False
      | c # cs \<Rightarrow> is_sep c \<and> map lower (take 12 cs) = js ''node_modules''
                 \<and> (case drop 12 cs of [] \<Rightarrow> False | d # _ \<Rightarrow> is_sep d))"

definition atom_asar_at :: "jsstring \<Rightarrow> bool" where
  "atom_asar_at s =
     (case s of [] \<Rightarrow> False | c # cs \<Rightarrow> is_sep c \<and> take 9 cs = js ''atom.asar'')"

definition isInNodeModules :: "jsstring \<Rightarrow> bool" where
  "isInNodeModules filePath = (search node_modules_at filePath \<or> search atom_asar_at filePath)"

definition hasSourceMap :: "jsstring \<Rightarrow> bool" where
  "hasSourceMap src = (lastIndexOf src (js ''//# sourceMap'') > lastIndexOf src [0x0A])"

text \<open>
  \<open>containsControlCharacters\<close>: the loop returns \<open>true\<close> from inside as soon as the count
  passes 16 (\<open>None\<close> here), else it ends with the count. \<open>charCodeAt\<close> is \<open>unat\<close> of the
  code unit. The last line compares \<open>controlCount / str.length\<close> with \<open>0.02\<close>; with a count of
  at most 16 the floating-point comparison is the exact one.
\<close>

fun controlLoop :: "jsstring \<Rightarrow> nat \<Rightarrow> nat option" where
  "controlLoop [] controlCount = Some controlCount"
| "controlLoop (c # cs) controlCount =
     (let controlCount' = (if unat c = 65536 \<or> unat c < 8 then controlCount + 1 else controlCount)
      in if controlCount' > 16 then None else controlLoop cs controlCount')"

definition containsControlCharacters :: "jsstring \<Rightarrow> bool" where
  "containsControlCharacters str =
     (case controlLoop str 0 of
        None \<Rightarrow> True
      | Some controlCount \<Rightarrow>
          if controlCount = 0 then False
          else rat_of_nat controlCount / rat_of_nat (length str) < 2 / 100)"

text \<open>
  The binary-garbage test in the words of the specification, section 4.2 step 2:
  \<open>True\<close> is "binary", \<open>False\<close> is "text".
\<close>

definition control_like :: "16 word \<Rightarrow> bool" where
  "control_like c = (unat c < 8 \<or> unat c = 65536)"

definition spec_looksBinary :: "jsstring \<Rightarrow> bool" where
  "spec_looksBinary str =
     (let n = length (filter control_like str)
      in if n > 16 then True
         else if n = 0 \<or> rat_of_nat n / rat_of_nat (length str) < 2 / 100 then False
         else True)"

definition encodings :: "encoding list" where
  "encodings = [utf8, utf16le]"

definition detectFileEncoding :: "bytes \<Rightarrow> detected" where
  "detectFileEncoding buffer =
     (if length buffer < 1 then DetTrue
      else (let buf = (if length buffer < 4096 then buffer else take 4096 buffer)
            in case List.find (\<lambda>x. \<not> containsControlCharacters (buffer_toString x buf)) encodings of
                 None \<Rightarrow> DetUndefined
               | Some x \<Rightarrow> DetEncoding x))"

section \<open>Collaborators\<close>

text \<open>
  The modules \<open>crypto\<close> and \<open>zlib\<close> and the \<open>JSON\<close> object are not part of the
  repository. They are parameters of the model:
  \<open>sha1_hex b\<close> is \<open>crypto.createHash('sha1').update(b).digest('hex')\<close>.
\<close>

record platform =
  sha1_hex :: "bytes \<Rightarrow> jsstring"
  gzip :: "bytes \<Rightarrow> bytes"
  gunzip :: "bytes \<Rightarrow> js_error + bytes"
  JSON_stringify :: "change_cache \<Rightarrow> jsstring"
  JSON_parse :: "jsstring \<Rightarrow> js_error + change_cache"

definition log_call :: "fs_call \<Rightarrow> world \<Rightarrow> world" where
  "log_call c w = w\<lparr>calls := calls w @ [c]\<rparr>"

definition statSync :: "jsstring \<Rightarrow> world \<Rightarrow> (js_error + file_node) \<times> world" where
  "statSync path w =
     (case files w path of None \<Rightarrow> Inl (ENOENT path) | Some n \<Rightarrow> Inr n,
      log_call (StatCall path) w)"

text \<open>\<open>fs.readFileSync(path)\<close>: the content as a Buffer.\<close>

definition readFileSync :: "jsstring \<Rightarrow> world \<Rightarrow> (js_error + bytes) \<times> world" where
  "readFileSync path w =
     (case files w path of
        None \<Rightarrow> Inl (ENOENT path)
      | Some n \<Rightarrow> if node_isFile n then Inr (node_content n) else Inl (EISDIR path),
      log_call (ReadCall path None) w)"

text \<open>
  \<open>fs.readFileSync(path, options)\<close> as the source calls it, with the truthy value that
  \<open>detectFileEncoding\<close> returned: an encoding name gives the decoded content; an options
  value that is neither a string nor an object is refused with a \<open>TypeError\<close> before the
  file is opened. (The source never passes \<open>undefined\<close> here: it has returned before.)
\<close>

definition readFileSync_encoding ::
  "jsstring \<Rightarrow> detected \<Rightarrow> world \<Rightarrow> (js_error + jsstring) \<times> world" where
  "readFileSync_encoding path options w =
     (case options of
        DetEncoding x \<Rightarrow>
          (case files w path of
             None \<Rightarrow> Inl (ENOENT path)
           | Some n \<Rightarrow> if node_isFile n then Inr (buffer_toString x (node_content n))
                       else Inl (EISDIR path))
      | _ \<Rightarrow> Inl TypeError,
      log_call (ReadCall path (Some options)) w)"

definition writeFile :: "jsstring \<Rightarrow> bytes \<Rightarrow> world \<Rightarrow> (js_error + unit) \<times> world" where
  "writeFile path data w =
     (let w' = log_call (WriteCall path data) w;
          node = \<lparr>node_ctime = clock w, node_size = length data, node_isFile = True,
                  node_content = data\<rparr>
      in case files w path of
           None \<Rightarrow> (Inr (), w'\<lparr>files := (files w)(path \<mapsto> node)\<rparr>)
         | Some n \<Rightarrow> if node_isFile n then (Inr (), w'\<lparr>files := (files w)(path \<mapsto> node)\<rparr>)
                     else (Inl (EISDIR path), w'))"

section \<open>The class \<open>FileChangedCache\<close>\<close>

text \<open>
  \<open>constructor(appRoot, failOnCacheMiss=false)\<close>: an argument left out is \<open>None\<close> and
  takes the default.
\<close>

definition new_FileChangedCache :: "jsarg \<Rightarrow> bool option \<Rightarrow> cache" where
  "new_FileChangedCache appRoot0 failOnCacheMiss0 =
     \<lparr>appRoot = appRoot0,
      failOnCacheMiss = (case failOnCacheMiss0 of None \<Rightarrow> False | Some b \<Rightarrow> b),
      changeCache = [], changeCache_prototype = None\<rparr>"

text \<open>
  \<open>loadFromFile(file, failOnCacheMiss=true)\<close>: the constructor is called with one argument,
  \<open>new FileChangedCache(failOnCacheMiss)\<close>. \<open>JSON.parse\<close> converts the unzipped Buffer to a
  string first.
\<close>

definition loadFromFile ::
  "platform \<Rightarrow> jsstring \<Rightarrow> bool option \<Rightarrow> world \<Rightarrow> (js_error + cache) \<times> world" where
  "loadFromFile P file failOnCacheMiss0 w =
     (let failOnCacheMiss1 = (case failOnCacheMiss0 of None \<Rightarrow> True | Some b \<Rightarrow> b);
          ret = new_FileChangedCache (JBool failOnCacheMiss1) None
      in case readFileSync file w of
           (Inl err, w1) \<Rightarrow> (Inl err, w1)
         | (Inr buf, w1) \<Rightarrow>
             (case gunzip P buf of
                Inl err \<Rightarrow> (Inl err, w1)
              | Inr raw \<Rightarrow>
                  (case JSON_parse P (buffer_toString utf8 raw) of
                     Inl err \<Rightarrow> (Inl err, w1)
                   | Inr parsed \<Rightarrow>
                       (Inr (ret\<lparr>changeCache := parsed, changeCache_prototype := None\<rparr>), w1))))"

definition save :: "platform \<Rightarrow> jsstring \<Rightarrow> cache \<Rightarrow> world \<Rightarrow> (js_error + unit) \<times> world" where
  "save P filePath c w =
     (let buf = gzip P (buffer_from utf8 (JSON_stringify P (changeCache c)))
      in writeFile filePath buf w)"

definition calculateHashForFileSync ::
  "platform \<Rightarrow> jsstring \<Rightarrow> world \<Rightarrow> (js_error + hash_result) \<times> world" where
  "calculateHashForFileSync P absoluteFilePath w =
     (case readFileSync absoluteFilePath w of
        (Inl err, w1) \<Rightarrow> (Inl err, w1)
      | (Inr buf, w1) \<Rightarrow>
          (let encoding = detectFileEncoding buf
           in if encoding = DetUndefined
              then (Inr \<lparr>sourceCode = None, digest = sha1_hex P buf, binaryData = Some buf\<rparr>, w1)
              else (case readFileSync_encoding absoluteFilePath encoding w1 of
                      (Inl err, w2) \<Rightarrow> (Inl err, w2)
                    | (Inr src, w2) \<Rightarrow>
                        (Inr \<lparr>sourceCode = Some src,
                              digest = sha1_hex P (buffer_from utf8 src),
                              binaryData = None\<rparr>, w2))))"

definition cacheKey :: "cache \<Rightarrow> jsstring \<Rightarrow> jsstring" where
  "cacheKey c absoluteFilePath =
     (if truthy (appRoot c) then replace_first (toString (appRoot c)) absoluteFilePath
      else absoluteFilePath)"

definition not_precompiled :: "jsstring \<Rightarrow> js_error" where
  "not_precompiled absoluteFilePath =
     Error (js ''Asked for '' @ absoluteFilePath @ js '' but it was not precompiled!'')"

definition cant_stat :: "jsstring \<Rightarrow> js_error" where
  "cant_stat absoluteFilePath = Error (js ''Can'' @ [0x27] @ js ''t stat '' @ absoluteFilePath)"

text \<open>\<open>sourceCode || ''\<close>\<close>

definition or_empty :: "jsstring option \<Rightarrow> jsstring" where
  "or_empty s = (case s of None \<Rightarrow> [] | Some t \<Rightarrow> t)"

subsection \<open>Property access on \<open>this.changeCache\<close>\<close>

definition object_prototype_names :: "jsstring list" where
  "object_prototype_names =
     map js [''constructor'', ''__defineGetter__'', ''__defineSetter__'', ''hasOwnProperty'',
             ''__lookupGetter__'', ''__lookupSetter__'', ''isPrototypeOf'',
             ''propertyIsEnumerable'', ''toString'', ''valueOf'', ''__proto__'',
             ''toLocaleString'']"

text \<open>
  \<open>this.changeCache[key]\<close>: the own property if there is one, else what the prototype
  chain gives. The getter \<open>__proto__\<close> of \<open>Object.prototype\<close> returns the prototype of the
  object.
\<close>

definition get_property :: "cache \<Rightarrow> jsstring \<Rightarrow> jsvalue" where
  "get_property c key =
     (case map_of (changeCache c) key of
        Some e \<Rightarrow> EntryObject e
      | None \<Rightarrow>
          (case changeCache_prototype c of
             Some e \<Rightarrow>
               if key = js ''ctime'' then NumberValue (entry_ctime e)
               else if key = js ''size'' then NumberValue (int (entry_size e))
               else if key = js ''info'' then InfoObject (entry_info e)
               else if key = js ''__proto__'' then EntryObject e
               else if key \<in> set object_prototype_names then Inherited
               else Undefined
           | None \<Rightarrow> if key \<in> set object_prototype_names then Inherited else Undefined))"

text \<open>
  \<open>this.changeCache[key] = entry\<close>: an own property is replaced; otherwise the setter
  \<open>__proto__\<close> of \<open>Object.prototype\<close> makes the entry the prototype, and every other key
  becomes a new own property (the inherited properties are writable data properties).
\<close>

definition set_property :: "cache \<Rightarrow> jsstring \<Rightarrow> cache_entry \<Rightarrow> cache" where
  "set_property c key entry =
     (if map_of (changeCache c) key = None \<and> key = js ''__proto__''
      then c\<lparr>changeCache_prototype := Some entry\<rparr>
      else c\<lparr>changeCache := AList.update key entry (changeCache c)\<rparr>)"

text \<open>\<open>delete this.changeCache.name\<close> removes an own property.\<close>

definition delete_property :: "cache \<Rightarrow> jsstring \<Rightarrow> cache" where
  "delete_property c name = c\<lparr>changeCache := AList.delete name (changeCache c)\<rparr>"

definition truthy_value :: "jsvalue \<Rightarrow> bool" where
  "truthy_value v = (case v of Undefined \<Rightarrow> False | NumberValue n \<Rightarrow> n \<noteq> 0 | _ \<Rightarrow> True)"

text \<open>\<open>cacheEntry.info\<close>\<close>

definition dot_info :: "jsvalue \<Rightarrow> lookup_result" where
  "dot_info v = (case v of EntryObject e \<Rightarrow> Info (entry_info e) | _ \<Rightarrow> ReturnsUndefined)"

text \<open>
  \<open>cacheEntry.ctime >= ctime && cacheEntry.size === size\<close>; on a value without these
  properties both operands are \<open>undefined\<close> and the comparison is false.
\<close>

definition unchanged_since :: "jsvalue \<Rightarrow> file_node \<Rightarrow> bool" where
  "unchanged_since v stat =
     (case v of
        EntryObject e \<Rightarrow> entry_ctime e \<ge> node_ctime stat \<and> entry_size e = node_size stat
      | _ \<Rightarrow> False)"

subsection \<open>Lookups\<close>

text \<open>
  \<open>getHashForPathSync\<close>. \<open>delete this.changeCache.cacheEntry\<close> removes the property whose
  name is the string \<open>cacheEntry\<close>.
\<close>

definition getHashForPathSync ::
  "platform \<Rightarrow> jsstring \<Rightarrow> cache \<Rightarrow> world \<Rightarrow> (js_error + lookup_result) \<times> cache \<times> world" where
  "getHashForPathSync P absoluteFilePath c w =
     (let key = cacheKey c absoluteFilePath;
          cacheEntry = get_property c key
      in if failOnCacheMiss c then
           (if \<not> truthy_value cacheEntry then (Inl (not_precompiled absoluteFilePath), c, w)
            else (Inr (dot_info cacheEntry), c, w))
         else
           (case statSync absoluteFilePath w of
              (Inl err, w1) \<Rightarrow> (Inl err, c, w1)
            | (Inr stat, w1) \<Rightarrow>
                if \<not> node_isFile stat then (Inl (cant_stat absoluteFilePath), c, w1)
                else if truthy_value cacheEntry \<and> unchanged_since cacheEntry stat
                  then (Inr (dot_info cacheEntry), c, w1)
                else
                  (let c1 = (if truthy_value cacheEntry then delete_property c (js ''cacheEntry'')
                             else c)
                   in case calculateHashForFileSync P absoluteFilePath w1 of
                        (Inl err, w2) \<Rightarrow> (Inl err, c1, w2)
                      | (Inr r, w2) \<Rightarrow>
                          (let i = \<lparr>info_hash = digest r,
                                    info_isMinified = contentsAreMinified (or_empty (sourceCode r)),
                                    info_isInNodeModules = isInNodeModules absoluteFilePath,
                                    info_hasSourceMap = hasSourceMap (or_empty (sourceCode r)),
                                    info_isFileBinary = (binaryData r \<noteq> None)\<rparr>;
                               c2 = set_property c1 key
                                      \<lparr>entry_ctime = node_ctime stat, entry_size = node_size stat,
                                       entry_info = i\<rparr>
                           in case binaryData r of
                                Some b \<Rightarrow> (Inr (WithBinaryData b i), c2, w2)
                              | None \<Rightarrow> (Inr (WithSourceCode (or_empty (sourceCode r)) i), c2, w2)))))"

subsection \<open>The asynchronous methods\<close>

text \<open>
  \<open>pfs\<close> is \<open>pify(fs)\<close>: each method returns a promise that resolves with what the
  synchronous call returns and rejects with what it throws, and \<open>await\<close> throws the
  rejection. A single call, not interleaved with another one, is modelled.
\<close>

definition pfs_stat :: "jsstring \<Rightarrow> world \<Rightarrow> (js_error + file_node) \<times> world" where
  "pfs_stat path w = statSync path w"

definition pfs_readFile :: "jsstring \<Rightarrow> world \<Rightarrow> (js_error + bytes) \<times> world" where
  "pfs_readFile path w = readFileSync path w"

definition pfs_readFile_encoding ::
  "jsstring \<Rightarrow> detected \<Rightarrow> world \<Rightarrow> (js_error + jsstring) \<times> world" where
  "pfs_readFile_encoding path options w = readFileSync_encoding path options w"

definition calculateHashForFile ::
  "platform \<Rightarrow> jsstring \<Rightarrow> world \<Rightarrow> (js_error + hash_result) \<times> world" where
  "calculateHashForFile P absoluteFilePath w =
     (case pfs_readFile absoluteFilePath w of
        (Inl err, w1) \<Rightarrow> (Inl err, w1)
      | (Inr buf, w1) \<Rightarrow>
          (let encoding = detectFileEncoding buf
           in if encoding = DetUndefined
              then (Inr \<lparr>sourceCode = None, digest = sha1_hex P buf, binaryData = Some buf\<rparr>, w1)
              else (case pfs_readFile_encoding absoluteFilePath encoding w1 of
                      (Inl err, w2) \<Rightarrow> (Inl err, w2)
                    | (Inr src, w2) \<Rightarrow>
                        (Inr \<lparr>sourceCode = Some src,
                              digest = sha1_hex P (buffer_from utf8 src),
                              binaryData = None\<rparr>, w2))))"

definition getHashForPath ::
  "platform \<Rightarrow> jsstring \<Rightarrow> cache \<Rightarrow> world \<Rightarrow> (js_error + lookup_result) \<times> cache \<times> world" where
  "getHashForPath P absoluteFilePath c w =
     (let key = cacheKey c absoluteFilePath;
          cacheEntry = get_property c key
      in if failOnCacheMiss c then
           (if \<not> truthy_value cacheEntry then (Inl (not_precompiled absoluteFilePath), c, w)
            else (Inr (dot_info cacheEntry), c, w))
         else
           (case pfs_stat absoluteFilePath w of
              (Inl err, w1) \<Rightarrow> (Inl err, c, w1)
            | (Inr stat, w1) \<Rightarrow>
                if \<not> node_isFile stat then (Inl (cant_stat absoluteFilePath), c, w1)
                else if truthy_value cacheEntry \<and> unchanged_since cacheEntry stat
                  then (Inr (dot_info cacheEntry), c, w1)
                else
                  (let c1 = (if truthy_value cacheEntry then delete_property c (js ''cacheEntry'')
                             else c)
                   in case calculateHashForFile P absoluteFilePath w1 of
                        (Inl err, w2) \<Rightarrow> (Inl err, c1, w2)
                      | (Inr r, w2) \<Rightarrow>
                          (let i = \<lparr>info_hash = digest r,
                                    info_isMinified = contentsAreMinified (or_empty (sourceCode r)),
                                    info_isInNodeModules = isInNodeModules absoluteFilePath,
                                    info_hasSourceMap = hasSourceMap (or_empty (sourceCode r)),
                                    info_isFileBinary = (binaryData r \<noteq> None)\<rparr>;
                               c2 = set_property c1 key
                                      \<lparr>entry_ctime = node_ctime stat, entry_size = node_size stat,
                                       entry_info = i\<rparr>
                           in case binaryData r of
                                Some b \<Rightarrow> (Inr (WithBinaryData b i), c2, w2)
                              | None \<Rightarrow> (Inr (WithSourceCode (or_empty (sourceCode r)) i), c2, w2)))))"

text \<open>The same lookup made \<open>n\<close> times in a row; the results are collected.\<close>

fun lookups ::
  "nat \<Rightarrow> platform \<Rightarrow> jsstring \<Rightarrow> cache \<Rightarrow> world \<Rightarrow> (js_error + lookup_result) list \<times> cache \<times> world" where
  "lookups 0 P path c w = ([], c, w)"
| "lookups (Suc n) P path c w =
     (case getHashForPathSync P path c w of
        (r, c1, w1) \<Rightarrow> (case lookups n P path c1 w1 of (rs, c2, w2) \<Rightarrow> (r # rs, c2, w2)))"

definition reads :: "world \<Rightarrow> fs_call list" where
  "reads w = filter (\<lambda>c. case c of ReadCall _ _ \<Rightarrow> True | _ \<Rightarrow> False) (calls w)"

section \<open>An executable platform\<close>

text \<open>
  To run the model on concrete inputs the parameters need values. \<open>sample_platform\<close>
  is small enough to evaluate: its digest is the hexadecimal dump of its input (it
  separates any two inputs, it is not SHA-1), its compression is the two magic bytes of
  gzip before the data, and its JSON writes and reads the snapshot format of
  \<open>changeCache\<close>: \<open>{key: {ctime, size, info: {hash, isMinified, isInNodeModules,
  hasSourceMap, isFileBinary}}}\<close>.
\<close>

definition hexdigit :: "nat \<Rightarrow> 16 word" where
  "hexdigit n = (if n < 10 then of_nat (48 + n) else of_nat (87 + n))"

definition hex :: "bytes \<Rightarrow> jsstring" where
  "hex bs = concat (map (\<lambda>b. [hexdigit (unat b div 16), hexdigit (unat b mod 16)]) bs)"

function decimal :: "nat \<Rightarrow> jsstring" where
  "decimal n = (if n < 10 then [of_nat (48 + n)] else decimal (n div 10) @ [of_nat (48 + n mod 10)])"
  by pat_completeness auto
termination
  by (relation "measure id") auto

declare decimal.simps [simp del]

definition number :: "int \<Rightarrow> jsstring" where
  "number i = (if i < 0 then 0x2D # decimal (nat (- i)) else decimal (nat i))"

definition escape :: "16 word \<Rightarrow> jsstring" where
  "escape c =
     (if c = 0x22 then [0x5C, 0x22]
      else if c = 0x5C then [0x5C, 0x5C]
      else if c = 0x08 then [0x5C, 0x62]
      else if c = 0x0C then [0x5C, 0x66]
      else if c = 0x0A then [0x5C, 0x6E]
      else if c = 0x0D then [0x5C, 0x72]
      else if c = 0x09 then [0x5C, 0x74]
      else if c < 0x20 then [0x5C, 0x75, 0x30, 0x30, hexdigit (unat c div 16), hexdigit (unat c mod 16)]
      else [c])"

definition quote :: "jsstring \<Rightarrow> jsstring" where
  "quote s = [0x22] @ concat (map escape s) @ [0x22]"

definition boolean :: "bool \<Rightarrow> jsstring" where
  "boolean b = (if b then js ''true'' else js ''false'')"

fun join :: "jsstring \<Rightarrow> jsstring list \<Rightarrow> jsstring" where
  "join sep [] = []"
| "join sep [x] = x"
| "join sep (x # y # ys) = x @ sep @ join sep (y # ys)"

definition member :: "string \<Rightarrow> jsstring \<Rightarrow> jsstring" where
  "member name v = quote (js name) @ js '':'' @ v"

definition stringify_info :: "info \<Rightarrow> jsstring" where
  "stringify_info i =
     js ''{'' @ join (js '','')
       [member ''hash'' (quote (info_hash i)),
        member ''isMinified'' (boolean (info_isMinified i)),
        member ''isInNodeModules'' (boolean (info_isInNodeModules i)),
        member ''hasSourceMap'' (boolean (info_hasSourceMap i)),
        member ''isFileBinary'' (boolean (info_isFileBinary i))] @ js ''}''"

definition stringify_entry :: "cache_entry \<Rightarrow> jsstring" where
  "stringify_entry e =
     js ''{'' @ join (js '','')
       [member ''ctime'' (number (entry_ctime e)),
        member ''size'' (number (int (entry_size e))),
        member ''info'' (stringify_info (entry_info e))] @ js ''}''"

definition stringify :: "change_cache \<Rightarrow> jsstring" where
  "stringify m =
     js ''{'' @ join (js '','') (map (\<lambda>(k, e). quote k @ js '':'' @ stringify_entry e) m) @ js ''}''"

text \<open>Reading the text back, members in the order in which \<open>stringify\<close> writes them.\<close>

definition expect :: "jsstring \<Rightarrow> jsstring \<Rightarrow> jsstring option" where
  "expect lit s = (if take (length lit) s = lit then Some (drop (length lit) s) else None)"

definition hexval :: "16 word \<Rightarrow> nat option" where
  "hexval c =
     (if 0x30 \<le> c \<and> c \<le> 0x39 then Some (unat c - 0x30)
      else if 0x61 \<le> c \<and> c \<le> 0x66 then Some (unat c - 0x57)
      else if 0x41 \<le> c \<and> c \<le> 0x46 then Some (unat c - 0x37)
      else None)"

definition unescape :: "16 word \<Rightarrow> 16 word option" where
  "unescape c =
     (if c = 0x22 \<or> c = 0x5C \<or> c = 0x2F then Some c
      else if c = 0x62 then Some 0x08
      else if c = 0x66 then Some 0x0C
      else if c = 0x6E then Some 0x0A
      else if c = 0x72 then Some 0x0D
      else if c = 0x74 then Some 0x09
      else None)"

fun string_body :: "jsstring \<Rightarrow> (jsstring \<times> jsstring) option" where
  "string_body [] = None"
| "string_body (c # cs) =
     (if c = 0x22 then Some ([], cs)
      else if c = 0x5C then
        (case cs of
           [] \<Rightarrow> None
         | e # r \<Rightarrow>
             if e = 0x75 then
               (case r of
                  h1 # h2 # h3 # h4 # r' \<Rightarrow>
                    (case (hexval h1, hexval h2, hexval h3, hexval h4) of
                       (Some a, Some b, Some c', Some d) \<Rightarrow>
                         map_option (\<lambda>(s, rest). (of_nat (((a * 16 + b) * 16 + c') * 16 + d) # s, rest))
                           (string_body r')
                     | _ \<Rightarrow> None)
                | _ \<Rightarrow> None)
             else (case unescape e of
                     None \<Rightarrow> None
                   | Some u \<Rightarrow> map_option (\<lambda>(s, rest). (u # s, rest)) (string_body r)))
      else if c < 0x20 then None
      else map_option (\<lambda>(s, rest). (c # s, rest)) (string_body cs))"

definition parse_string :: "jsstring \<Rightarrow> (jsstring \<times> jsstring) option" where
  "parse_string s = (case s of [] \<Rightarrow> None | c # cs \<Rightarrow> if c = 0x22 then string_body cs else None)"

definition is_digit :: "16 word \<Rightarrow> bool" where
  "is_digit c = (0x30 \<le> c \<and> c \<le> 0x39)"

definition digits_value :: "jsstring \<Rightarrow> nat" where
  "digits_value ds = foldl (\<lambda>acc d. acc * 10 + (unat d - 0x30)) 0 ds"

definition parse_number :: "jsstring \<Rightarrow> (int \<times> jsstring) option" where
  "parse_number s =
     (let neg = (s \<noteq> [] \<and> hd s = 0x2D);
          t = (if neg then tl s else s);
          ds = takeWhile is_digit t
      in if ds = [] then None
         else Some ((if neg then - int (digits_value ds) else int (digits_value ds)),
                    dropWhile is_digit t))"

definition parse_boolean :: "jsstring \<Rightarrow> (bool \<times> jsstring) option" where
  "parse_boolean s =
     (case expect (js ''true'') s of
        Some r \<Rightarrow> Some (True, r)
      | None \<Rightarrow> (case expect (js ''false'') s of Some r \<Rightarrow> Some (False, r) | None \<Rightarrow> None))"

definition named :: "string \<Rightarrow> (jsstring \<Rightarrow> ('a \<times> jsstring) option) \<Rightarrow> jsstring \<Rightarrow> ('a \<times> jsstring) option" where
  "named name p s = Option.bind (expect (quote (js name) @ js '':'') s) p"

definition parse_info :: "jsstring \<Rightarrow> (info \<times> jsstring) option" where
  "parse_info s = do {
     s1 \<leftarrow> expect (js ''{'') s;
     (h, s2) \<leftarrow> named ''hash'' parse_string s1;
     s3 \<leftarrow> expect (js '','') s2;
     (m, s4) \<leftarrow> named ''isMinified'' parse_boolean s3;
     s5 \<leftarrow> expect (js '','') s4;
     (n, s6) \<leftarrow> named ''isInNodeModules'' parse_boolean s5;
     s7 \<leftarrow> expect (js '','') s6;
     (sm, s8) \<leftarrow> named ''hasSourceMap'' parse_boolean s7;
     s9 \<leftarrow> expect (js '','') s8;
     (b, s10) \<leftarrow> named ''isFileBinary'' parse_boolean s9;
     s11 \<leftarrow> expect (js ''}'') s10;
     Some (\<lparr>info_hash = h, info_isMinified = m, info_isInNodeModules = n,
            info_hasSourceMap = sm, info_isFileBinary = b\<rparr>, s11)
   }"

definition parse_entry :: "jsstring \<Rightarrow> (cache_entry \<times> jsstring) option" where
  "parse_entry s = do {
     s1 \<leftarrow> expect (js ''{'') s;
     (t, s2) \<leftarrow> named ''ctime'' parse_number s1;
     s3 \<leftarrow> expect (js '','') s2;
     (z, s4) \<leftarrow> named ''size'' parse_number s3;
     s5 \<leftarrow> expect (js '','') s4;
     (i, s6) \<leftarrow> named ''info'' parse_info s5;
     s7 \<leftarrow> expect (js ''}'') s6;
     (if z < 0 then None
      else Some (\<lparr>entry_ctime = t, entry_size = nat z, entry_info = i\<rparr>, s7))
   }"

definition parse_member :: "jsstring \<Rightarrow> ((jsstring \<times> cache_entry) \<times> jsstring) option" where
  "parse_member s = do {
     (k, s1) \<leftarrow> parse_string s;
     s2 \<leftarrow> expect (js '':'') s1;
     (e, s3) \<leftarrow> parse_entry s2;
     Some ((k, e), s3)
   }"

function parse_members :: "jsstring \<Rightarrow> (change_cache \<times> jsstring) option" where
  "parse_members s =
     (case parse_member s of
        None \<Rightarrow> None
      | Some (kv, rest) \<Rightarrow>
          (case rest of
             [] \<Rightarrow> None
           | c # rest' \<Rightarrow>
               if c = 0x7D then Some ([kv], rest')
               else if c = 0x2C \<and> length rest' < length s
                 then map_option (\<lambda>(m, r). (kv # m, r)) (parse_members rest')
               else None))"
  by pat_completeness auto
termination
  by (relation "measure length") auto

declare parse_members.simps [simp del]

definition parse :: "jsstring \<Rightarrow> js_error + change_cache" where
  "parse s =
     (case expect (js ''{'') s of
        None \<Rightarrow> Inl SyntaxError
      | Some s1 \<Rightarrow>
          if s1 = js ''}'' then Inr []
          else (case parse_members s1 of
                  Some (m, []) \<Rightarrow> Inr m
                | _ \<Rightarrow> Inl SyntaxError))"

definition sample_gzip :: "bytes \<Rightarrow> bytes" where
  "sample_gzip b = [0x1F, 0x8B] @ b"

definition sample_gunzip :: "bytes \<Rightarrow> js_error + bytes" where
  "sample_gunzip b = (if take 2 b = [0x1F, 0x8B] then Inr (drop 2 b) else Inl ZlibError)"

definition sample_platform :: platform where
  "sample_platform =
     \<lparr>sha1_hex = hex, gzip = sample_gzip, gunzip = sample_gunzip,
      JSON_stringify = stringify, JSON_parse = parse\<rparr>"

subsection \<open>Sample inputs\<close>

definition file_x :: file_node where
  "file_x = \<lparr>node_ctime = 1000, node_size = 1, node_isFile = True, node_content = [0x78]\<rparr>"

definition sample_world :: world where
  "sample_world =
     \<lparr>files = [js ''/app/a.js'' \<mapsto> file_x, js ''/app/b.js'' \<mapsto> file_x],
      calls = [], clock = 2000\<rparr>"

definition info_x :: info where
  "info_x = \<lparr>info_hash = js ''78'', info_isMinified = False, info_isInNodeModules = False,
              info_hasSourceMap = False, info_isFileBinary = False\<rparr>"

definition entry_x :: cache_entry where
  "entry_x = \<lparr>entry_ctime = 1000, entry_size = 1, entry_info = info_x\<rparr>"

definition sample_cache :: cache where
  "sample_cache =
     \<lparr>appRoot = JString (js ''/app''), failOnCacheMiss = False,
      changeCache = [(js ''/a.js'', entry_x)], changeCache_prototype = None\<rparr>"

text \<open>A strict instance whose root ends with the separator, so that keys are file names.\<close>

definition strict_cache :: cache where
  "strict_cache =
     \<lparr>appRoot = JString (js ''/app/''), failOnCacheMiss = True,
      changeCache = [(js ''a.js'', entry_x)], changeCache_prototype = None\<rparr>"

text \<open>
  A permissive instance under the root \<open>/app/\<close> with one entry, a world with the file
  \<open>/app/__proto__\<close>, the instance after the lookup of that file, and the instance that
  \<open>loadFromFile\<close> makes of its snapshot.
\<close>

definition root_cache :: cache where
  "root_cache =
     \<lparr>appRoot = JString (js ''/app/''), failOnCacheMiss = False,
      changeCache = [(js ''a.js'', entry_x)], changeCache_prototype = None\<rparr>"

definition proto_world :: world where
  "proto_world =
     \<lparr>files = [js ''/app/a.js'' \<mapsto> file_x, js ''/app/__proto__'' \<mapsto> file_x],
      calls = [], clock = 2000\<rparr>"

definition cached_cache :: cache where
  "cached_cache = root_cache\<lparr>changeCache_prototype := Some entry_x\<rparr>"

definition reloaded_cache :: cache where
  "reloaded_cache =
     \<lparr>appRoot = JBool False, failOnCacheMiss = False,
      changeCache = [(js ''a.js'', entry_x)], changeCache_prototype = None\<rparr>"

definition file_zeros :: file_node where
  "file_zeros = \<lparr>node_ctime = 1000, node_size = 40, node_isFile = True,
                 node_content = replicate 40 0\<rparr>"

definition file_empty :: file_node where
  "file_empty = \<lparr>node_ctime = 1000, node_size = 0, node_isFile = True, node_content = []\<rparr>"

definition binary_world :: world where
  "binary_world =
     \<lparr>files = [js ''/app/z.bin'' \<mapsto> file_zeros, js ''/app/empty.js'' \<mapsto> file_empty],
      calls = [], clock = 2000\<rparr>"

text \<open>The world after \<open>sample_cache\<close> has been saved to \<open>/snap\<close>, and the instance that \<open>loadFromFile\<close> makes of it.\<close>

definition snapshot_world :: world where
  "snapshot_world = snd (save sample_platform (js ''/snap'') sample_cache sample_world)"

definition loaded_cache :: cache where
  "loaded_cache =
     \<lparr>appRoot = JBool True, failOnCacheMiss = False, changeCache = [(js ''/a.js'', entry_x)],
      changeCache_prototype = None\<rparr>"

text \<open>A cache with an entry under the key \<open>cacheEntry\<close> and a stale entry for \<open>/app/a.js\<close>.\<close>

definition stale_cache :: cache where
  "stale_cache =
     \<lparr>appRoot = JString (js ''/app/''), failOnCacheMiss = False,
      changeCache = [(js ''cacheEntry'', entry_x),
                     (js ''a.js'', entry_x\<lparr>entry_ctime := 500\<rparr>)],
      changeCache_prototype = None\<rparr>"

text \<open>
  The one-character text U+4848, whose UTF-16LE bytes are the UTF-8 bytes of \<open>HH\<close>, and
  a text of 17 ASCII characters.
\<close>

definition han :: jsstring where
  "han = [0x4848]"

definition encoding_world :: world where
  "encoding_world =
     \<lparr>files = [js ''/t/utf8.txt'' \<mapsto>
                 \<lparr>node_ctime = 1000, node_size = 3, node_isFile = True,
                  node_content = buffer_from utf8 han\<rparr>,
               js ''/t/utf16.txt'' \<mapsto>
                 \<lparr>node_ctime = 1000, node_size = 2, node_isFile = True,
                  node_content = buffer_from utf16le han\<rparr>],
      calls = [], clock = 2000\<rparr>"

definition ascii_text :: jsstring where
  "ascii_text = js ''seventeen letters''"

definition ascii_world :: world where
  "ascii_world =
     \<lparr>files = [js ''/t/utf8.txt'' \<mapsto>
                 \<lparr>node_ctime = 1000, node_size = 17, node_isFile = True,
                  node_content = buffer_from utf8 ascii_text\<rparr>,
               js ''/t/utf16.txt'' \<mapsto>
                 \<lparr>node_ctime = 1000, node_size = 34, node_isFile = True,
                  node_content = buffer_from utf16le ascii_text\<rparr>],
      calls = [], clock = 2000\<rparr>"

section \<open>Facts about the classifiers\<close>

lemma countNewlines_filter:
  "countNewlines s n = n + length (filter (\<lambda>c. c = 0x0A) s)"
  by (induction s arbitrary: n) auto

lemma controlLoop_count:
  "k \<le> 16 \<Longrightarrow> controlLoop s k =
     (if k + length (filter control_like s) > 16 then None
      else Some (k + length (filter control_like s)))"
  by (induction s arbitrary: k) (auto simp: control_like_def Let_def)

lemma ratio_below_two_percent:
  assumes "0 < m"
  shows "(rat_of_nat n / rat_of_nat m < 2 / 100) \<longleftrightarrow> 50 * n < m"
proof -
  have "(rat_of_nat n / rat_of_nat m < 2 / 100) \<longleftrightarrow> rat_of_nat n * 100 < 2 * rat_of_nat m"
    using assms by (simp add: field_simps)
  also have "\<dots> \<longleftrightarrow> rat_of_nat (n * 100) < rat_of_nat (2 * m)"
    by simp
  also have "\<dots> \<longleftrightarrow> n * 100 < 2 * m"
    by (rule of_nat_less_iff)
  also have "\<dots> \<longleftrightarrow> 50 * n < m"
    by arith
  finally show ?thesis .
qed

text \<open>What the source's test computes, in terms of the number of control-like characters.\<close>

lemma containsControlCharacters_iff:
  "containsControlCharacters s \<longleftrightarrow>
     (length (filter control_like s) > 16
      \<or> (0 < length (filter control_like s) \<and> 50 * length (filter control_like s) < length s))"
proof (cases "length (filter control_like s) = 0")
  case True
  then show ?thesis
    by (simp add: containsControlCharacters_def controlLoop_count)
next
  case False
  have "length (filter control_like s) \<le> length s"
    by simp
  with False have "0 < length s"
    by linarith
  from ratio_below_two_percent[OF this, of "length (filter control_like s)"] False
  show ?thesis
    by (simp add: containsControlCharacters_def controlLoop_count)
qed

lemma spec_looksBinary_iff:
  "spec_looksBinary s \<longleftrightarrow>
     (length (filter control_like s) > 16
      \<or> (0 < length (filter control_like s) \<and> length s \<le> 50 * length (filter control_like s)))"
proof (cases "length (filter control_like s) = 0")
  case True
  then show ?thesis
    by (simp add: spec_looksBinary_def)
next
  case False
  have "length (filter control_like s) \<le> length s"
    by simp
  with False have "0 < length s"
    by linarith
  from ratio_below_two_percent[OF this, of "length (filter control_like s)"] False
  show ?thesis
    by (auto simp: spec_looksBinary_def Let_def)
qed

text \<open>
  With between 1 and 16 control-like characters the source's answer is the opposite of
  the specified one, whatever the ratio.
\<close>

lemma containsControlCharacters_opposite:
  assumes "0 < length (filter control_like s)" and "length (filter control_like s) \<le> 16"
  shows "containsControlCharacters s = (\<not> spec_looksBinary s)"
  using assms by (auto simp: containsControlCharacters_iff spec_looksBinary_iff)

lemma containsControlCharacters_agrees:
  assumes "length (filter control_like s) = 0 \<or> 16 < length (filter control_like s)"
  shows "containsControlCharacters s = spec_looksBinary s"
  using assms by (auto simp: containsControlCharacters_iff spec_looksBinary_iff)

text \<open>
  C2. The classifier counts the code units below 8, answers "binary" once the count
  passes 16 and "text" when it is zero. In between, the claim says "text" exactly when
  count/length is below 2%; the source returns \<open>controlCount / str.length < 0.02\<close> as the
  answer to "contains control characters", so it says "binary" there. One control
  character among 100 characters (1%) is binary for the source and text for the claim;
  one among 2 characters (50%) is text for the source and binary for the claim.
\<close>

theorem containsControlCharacters_ratio_inverted:
  "containsControlCharacters (0x01 # replicate 99 0x61) = True
   \<and> spec_looksBinary (0x01 # replicate 99 0x61) = False
   \<and> containsControlCharacters [0x01, 0x61] = False
   \<and> spec_looksBinary [0x01, 0x61] = True"
  by (simp add: containsControlCharacters_iff spec_looksBinary_iff control_like_def)

text \<open>
  C5. The claim takes both the length and the newline count within the first 1024
  characters. The source caps \<open>length\<close> at 1024 and counts the newlines of the whole
  string: 1024 letters followed by 20 newlines have no newline in the window (minified
  for the claim, 1024 > 80), and the source divides 1024 by 20 and answers "not minified".
\<close>

theorem contentsAreMinified_counts_past_window:
  "contentsAreMinified (replicate 1024 0x61 @ replicate 20 0x0A) = False
   \<and> spec_isMinified (replicate 1024 0x61 @ replicate 20 0x0A) = True"
  by (simp add: contentsAreMinified_def spec_isMinified_def countNewlines_filter)

text \<open>On a string of at most 1024 characters the two agree.\<close>

lemma contentsAreMinified_short:
  assumes "length s \<le> 1024"
  shows "contentsAreMinified s = spec_isMinified s"
  using assms by (simp add: contentsAreMinified_def spec_isMinified_def countNewlines_filter)

lemma contentsAreMinified_empty: "contentsAreMinified [] = False"
  by (simp add: contentsAreMinified_def)

lemma hasSourceMap_empty: "hasSourceMap [] = False"
  by (simp add: hasSourceMap_def lastIndexOf_def js_def)

section \<open>Facts about the lookup\<close>

lemma files_log_call [simp]: "files (log_call x w) = files w"
  by (simp add: log_call_def)

lemma calls_log_call [simp]: "calls (log_call x w) = calls w @ [x]"
  by (simp add: log_call_def)

lemma get_property_own:
  assumes "map_of (changeCache c) key = Some e"
  shows "get_property c key = EntryObject e"
  using assms by (simp add: get_property_def)

text \<open>The asynchronous methods compute what the synchronous ones do.\<close>

lemma calculateHashForFile_sync:
  "calculateHashForFile P p w = calculateHashForFileSync P p w"
  unfolding calculateHashForFile_def calculateHashForFileSync_def pfs_readFile_def
    pfs_readFile_encoding_def
  by (rule refl)

lemma getHashForPath_sync:
  "getHashForPath P p c w = getHashForPathSync P p c w"
  unfolding getHashForPath_def getHashForPathSync_def pfs_stat_def calculateHashForFile_sync
  by (rule refl)

lemma lookup_hit:
  assumes "\<not> failOnCacheMiss c"
    and "map_of (changeCache c) (cacheKey c p) = Some e"
    and "files w p = Some n" and "node_isFile n"
    and "entry_ctime e \<ge> node_ctime n" and "entry_size e = node_size n"
  shows "getHashForPathSync P p c w = (Inr (Info (entry_info e)), c, log_call (StatCall p) w)"
  using assms
  by (simp add: getHashForPathSync_def statSync_def Let_def get_property_own truthy_value_def
      unchanged_since_def dot_info_def)

lemma lookups_hit:
  assumes "\<not> failOnCacheMiss c"
    and "map_of (changeCache c) (cacheKey c p) = Some e"
    and "files w p = Some n" and "node_isFile n"
    and "entry_ctime e \<ge> node_ctime n" and "entry_size e = node_size n"
  shows "lookups k P p c w =
           (replicate k (Inr (Info (entry_info e))), c,
            w\<lparr>calls := calls w @ replicate k (StatCall p)\<rparr>)"
  using assms(3)
proof (induction k arbitrary: w)
  case 0
  then show ?case by simp
next
  case (Suc k)
  have step: "getHashForPathSync P p c w = (Inr (Info (entry_info e)), c, log_call (StatCall p) w)"
    using assms(1,2) Suc.prems assms(4,5,6) by (rule lookup_hit)
  have "files (log_call (StatCall p) w) p = Some n"
    using Suc.prems by simp
  from Suc.IH[OF this] step show ?case
    by (simp add: log_call_def replicate_append_same)
qed

lemma sample_key: "cacheKey sample_cache (js ''/app/a.js'') = js ''/a.js''"
  by (simp add: cacheKey_def sample_cache_def truthy_def toString_def js_def)

lemma sample_entry:
  "map_of (changeCache sample_cache) (cacheKey sample_cache (js ''/app/a.js'')) = Some entry_x"
  unfolding sample_key by (simp add: sample_cache_def)

lemma sample_file: "files sample_world (js ''/app/a.js'') = Some file_x"
  by (simp add: sample_world_def js_def)

text \<open>
  C1. In permissive mode, when the key has an entry whose stored timestamp is at least
  the current one and whose stored size is the current size, the lookup returns the
  stored facts, leaves the cache as it is and makes one call to the file system, the
  stat; and any number of repeated lookups return the same facts and add no read. The
  asynchronous lookup returns the same.
\<close>

theorem hit_returns_stored_facts:
  assumes "\<not> failOnCacheMiss c"
    and "map_of (changeCache c) (cacheKey c p) = Some e"
    and "files w p = Some n" and "node_isFile n"
    and "entry_ctime e \<ge> node_ctime n" and "entry_size e = node_size n"
  shows "getHashForPathSync P p c w
           = (Inr (Info (entry_info e)), c, w\<lparr>calls := calls w @ [StatCall p]\<rparr>)
         \<and> lookups k P p c w
           = (replicate k (Inr (Info (entry_info e))), c,
              w\<lparr>calls := calls w @ replicate k (StatCall p)\<rparr>)
         \<and> reads (snd (snd (lookups k P p c w))) = reads w
         \<and> getHashForPath P p c w
           = (Inr (Info (entry_info e)), c, w\<lparr>calls := calls w @ [StatCall p]\<rparr>)"
  using lookup_hit[OF assms, of P] lookups_hit[OF assms, of k P]
  by (simp add: log_call_def reads_def getHashForPath_sync)

theorem hit_returns_stored_facts_witness:
  "\<not> failOnCacheMiss sample_cache
   \<and> map_of (changeCache sample_cache) (cacheKey sample_cache (js ''/app/a.js'')) = Some entry_x
   \<and> files sample_world (js ''/app/a.js'') = Some file_x \<and> node_isFile file_x
   \<and> entry_ctime entry_x \<ge> node_ctime file_x \<and> entry_size entry_x = node_size file_x
   \<and> getHashForPathSync sample_platform (js ''/app/a.js'') sample_cache sample_world
        = (Inr (Info (entry_info entry_x)), sample_cache,
           sample_world\<lparr>calls := calls sample_world @ [StatCall (js ''/app/a.js'')]\<rparr>)
   \<and> lookups 3 sample_platform (js ''/app/a.js'') sample_cache sample_world
        = (replicate 3 (Inr (Info (entry_info entry_x))), sample_cache,
           sample_world\<lparr>calls := calls sample_world @ replicate 3 (StatCall (js ''/app/a.js''))\<rparr>)
   \<and> reads (snd (snd (lookups 3 sample_platform (js ''/app/a.js'') sample_cache sample_world)))
        = reads sample_world
   \<and> getHashForPath sample_platform (js ''/app/a.js'') sample_cache sample_world
        = (Inr (Info (entry_info entry_x)), sample_cache,
           sample_world\<lparr>calls := calls sample_world @ [StatCall (js ''/app/a.js'')]\<rparr>)"
proof -
  have 1: "\<not> failOnCacheMiss sample_cache"
    by (simp add: sample_cache_def)
  have 4: "node_isFile file_x"
    and 5: "entry_ctime entry_x \<ge> node_ctime file_x"
    and 6: "entry_size entry_x = node_size file_x"
    by (simp_all add: file_x_def entry_x_def)
  from hit_returns_stored_facts[OF 1 sample_entry sample_file 4 5 6,
        where k = 3 and P = sample_platform]
  show ?thesis
    using 1 sample_entry sample_file 4 5 6 by blast
qed

subsection \<open>Strict mode\<close>

text \<open>
  In strict mode the lookup never calls the file system. It throws when the value read
  under the key is falsy and returns its \<open>info\<close> property otherwise.
\<close>

lemma strict_lookup:
  assumes "failOnCacheMiss c"
  shows "getHashForPathSync P p c w =
           (if truthy_value (get_property c (cacheKey c p))
            then Inr (dot_info (get_property c (cacheKey c p)))
            else Inl (Error (js ''Asked for '' @ p @ js '' but it was not precompiled!'')),
            c, w)"
  using assms by (simp add: getHashForPathSync_def not_precompiled_def Let_def)

lemma strict_lookup_own_entry:
  assumes "failOnCacheMiss c" and "map_of (changeCache c) (cacheKey c p) = Some e"
  shows "getHashForPathSync P p c w = (Inr (Info (entry_info e)), c, w)"
    and "getHashForPath P p c w = (Inr (Info (entry_info e)), c, w)"
  using assms
  by (simp_all add: getHashForPath_sync strict_lookup get_property_own truthy_value_def dot_info_def)

lemma strict_lookup_no_property:
  assumes "failOnCacheMiss c" and "get_property c (cacheKey c p) = Undefined"
  shows "getHashForPathSync P p c w =
           (Inl (Error (js ''Asked for '' @ p @ js '' but it was not precompiled!'')), c, w)"
    and "getHashForPath P p c w =
           (Inl (Error (js ''Asked for '' @ p @ js '' but it was not precompiled!'')), c, w)"
  using assms
  by (simp_all add: getHashForPath_sync strict_lookup truthy_value_def)

lemma strict_key_constructor: "cacheKey strict_cache (js ''/app/constructor'') = js ''constructor''"
  by (simp add: cacheKey_def strict_cache_def truthy_def toString_def js_def)

lemma strict_constructor_inherited:
  "get_property strict_cache (js ''constructor'') = Inherited"
  by (simp add: get_property_def strict_cache_def object_prototype_names_def js_def)

text \<open>
  C6. The claim says that a strict lookup whose key has no entry fails with the error
  naming the path. \<open>this.changeCache\<close> is a plain object, and \<open>this.changeCache[cacheKey]\<close>
  also finds what the object inherits: for the file \<open>/app/constructor\<close> under the root
  \<open>/app/\<close> the key is \<open>constructor\<close>, there is no entry under it, the value read is the
  inherited function, \<open>!cacheEntry\<close> is false, and the lookup returns \<open>cacheEntry.info\<close>,
  which is \<open>undefined\<close>, instead of throwing. Both methods do so.
\<close>

theorem strict_lookup_of_inherited_name:
  "failOnCacheMiss strict_cache
   \<and> cacheKey strict_cache (js ''/app/constructor'') = js ''constructor''
   \<and> map_of (changeCache strict_cache) (js ''constructor'') = None
   \<and> getHashForPathSync sample_platform (js ''/app/constructor'') strict_cache sample_world
       = (Inr ReturnsUndefined, strict_cache, sample_world)
   \<and> getHashForPath sample_platform (js ''/app/constructor'') strict_cache sample_world
       = (Inr ReturnsUndefined, strict_cache, sample_world)"
proof -
  have 1: "failOnCacheMiss strict_cache"
    by (simp add: strict_cache_def)
  have none: "map_of (changeCache strict_cache) (js ''constructor'') = None"
    by (simp add: strict_cache_def js_def)
  have "getHashForPathSync sample_platform (js ''/app/constructor'') strict_cache sample_world
       = (Inr ReturnsUndefined, strict_cache, sample_world)"
    using strict_lookup[OF 1, of sample_platform "js ''/app/constructor''" sample_world]
    by (simp only: strict_key_constructor strict_constructor_inherited)
       (simp add: truthy_value_def dot_info_def)
  then show ?thesis
    using 1 none strict_key_constructor by (simp add: getHashForPath_sync)
qed

section \<open>Facts about fact derivation\<close>

lemma sentinel_never: "unat (c :: 16 word) \<noteq> 65536"
  using unsigned_less[of c, where ?'a = nat] by simp

lemma calculate_binary:
  assumes "files w p = Some n" and "node_isFile n"
    and "detectFileEncoding (node_content n) = DetUndefined"
  shows "calculateHashForFileSync P p w =
           (Inr \<lparr>sourceCode = None, digest = sha1_hex P (node_content n),
                 binaryData = Some (node_content n)\<rparr>, log_call (ReadCall p None) w)"
  using assms by (simp add: calculateHashForFileSync_def readFileSync_def)

lemma calculate_text:
  assumes "files w p = Some n" and "node_isFile n"
    and "detectFileEncoding (node_content n) = DetEncoding x"
  shows "calculateHashForFileSync P p w =
           (Inr \<lparr>sourceCode = Some (buffer_toString x (node_content n)),
                 digest = sha1_hex P (buffer_from utf8 (buffer_toString x (node_content n))),
                 binaryData = None\<rparr>,
            log_call (ReadCall p (Some (DetEncoding x))) (log_call (ReadCall p None) w))"
  using assms
  by (simp add: calculateHashForFileSync_def readFileSync_def readFileSync_encoding_def)

lemma utf8_decode_zeros: "utf8_decode (replicate k 0) = replicate k 0"
  unfolding utf8_decode_def by (induction k) simp_all

lemma utf16le_decode_zeros: "utf16le_decode (replicate (2 * k) 0) = replicate k 0"
  by (induction k) simp_all

lemma control_zeros: "filter control_like (replicate k 0) = replicate k 0"
  by (simp add: control_like_def)

lemma detect_zeros: "detectFileEncoding (node_content file_zeros) = DetUndefined"
proof -
  have a: "containsControlCharacters (utf8_decode (replicate 40 0))"
    by (simp add: utf8_decode_zeros containsControlCharacters_iff control_zeros)
  have "utf16le_decode (replicate (2 * 20) 0) = replicate 20 0"
    by (rule utf16le_decode_zeros)
  then have b: "containsControlCharacters (utf16le_decode (replicate 40 0))"
    by (simp add: containsControlCharacters_iff control_zeros)
  show ?thesis
    using a b
    by (simp add: detectFileEncoding_def file_zeros_def encodings_def buffer_toString_def)
qed

lemma detect_x: "detectFileEncoding (node_content file_x) = DetEncoding utf8"
  by (simp add: detectFileEncoding_def encodings_def buffer_toString_def file_x_def
      utf8_decode_def containsControlCharacters_iff control_like_def)

lemma text_x: "buffer_toString utf8 (node_content file_x) = [0x78]"
  by (simp add: buffer_toString_def file_x_def utf8_decode_def)

lemma hex_x: "hex (buffer_from utf8 [0x78]) = js ''78''"
  by (simp add: hex_def hexdigit_def js_def buffer_from_def utf8_unit_def)

lemma minified_x: "contentsAreMinified [0x78] = False"
  by (simp add: contentsAreMinified_def)

lemma sourcemap_x: "hasSourceMap [0x78] = False"
  by (simp add: hasSourceMap_def lastIndexOf_def js_def)

lemma node_modules_a: "isInNodeModules (js ''/app/a.js'') = False"
  by (simp add: isInNodeModules_def node_modules_at_def atom_asar_at_def js_def is_sep_def lower_def)

lemma node_modules_b: "isInNodeModules (js ''/app/b.js'') = False"
  by (simp add: isInNodeModules_def node_modules_at_def atom_asar_at_def js_def is_sep_def lower_def)

lemma node_modules_z: "isInNodeModules (js ''/app/z.bin'') = False"
  by (simp add: isInNodeModules_def node_modules_at_def atom_asar_at_def js_def is_sep_def lower_def)

text \<open>
  C10. For a zero-length file \<open>detectFileEncoding\<close> returns \<open>true\<close>, which is neither an
  encoding of the list nor \<open>undefined\<close>: the test \<open>!encoding\<close> fails, the binary branch is
  not taken, and the file is read a second time with \<open>true\<close> in the place of the encoding.
  The call log shows both reads; \<open>fs.readFileSync\<close> answers the second one with a
  \<open>TypeError\<close>, which is the outcome of \<open>calculateHashForFileSync\<close>.
\<close>

theorem empty_file_detected_true:
  assumes "files w p = Some n" and "node_isFile n" and "node_content n = []"
  shows "detectFileEncoding (node_content n) = DetTrue
         \<and> calculateHashForFileSync P p w =
             (Inl TypeError, w\<lparr>calls := calls w @ [ReadCall p None, ReadCall p (Some DetTrue)]\<rparr>)"
  using assms
  by (simp add: detectFileEncoding_def calculateHashForFileSync_def readFileSync_def
        readFileSync_encoding_def log_call_def)

theorem empty_file_detected_true_witness:
  "files binary_world (js ''/app/empty.js'') = Some file_empty \<and> node_isFile file_empty
   \<and> node_content file_empty = []
   \<and> detectFileEncoding (node_content file_empty) = DetTrue
   \<and> calculateHashForFileSync sample_platform (js ''/app/empty.js'') binary_world =
        (Inl TypeError,
         binary_world\<lparr>calls := calls binary_world @ [ReadCall (js ''/app/empty.js'') None,
                                   ReadCall (js ''/app/empty.js'') (Some DetTrue)]\<rparr>)"
proof -
  have 1: "files binary_world (js ''/app/empty.js'') = Some file_empty"
    by (simp add: binary_world_def js_def)
  have 2: "node_isFile file_empty" and 3: "node_content file_empty = []"
    by (simp_all add: file_empty_def)
  from empty_file_detected_true[OF 1 2 3, of sample_platform]
  show ?thesis
    using 1 2 3 by blast
qed

section \<open>The miss path\<close>

text \<open>
  What a permissive lookup returns and stores when the value read under the key is
  falsy or does not pass the test on timestamp and size.
\<close>

lemma lookup_miss:
  assumes "\<not> failOnCacheMiss c"
    and "files w p = Some n" and "node_isFile n"
    and "\<not> (truthy_value (get_property c (cacheKey c p))
            \<and> unchanged_since (get_property c (cacheKey c p)) n)"
    and "calculateHashForFileSync P p (log_call (StatCall p) w) = (Inr r, w2)"
  shows "getHashForPathSync P p c w =
     (let i = \<lparr>info_hash = digest r,
               info_isMinified = contentsAreMinified (or_empty (sourceCode r)),
               info_isInNodeModules = isInNodeModules p,
               info_hasSourceMap = hasSourceMap (or_empty (sourceCode r)),
               info_isFileBinary = (binaryData r \<noteq> None)\<rparr>;
          c1 = (if truthy_value (get_property c (cacheKey c p))
                then delete_property c (js ''cacheEntry'') else c)
      in (Inr (case binaryData r of
                 Some b \<Rightarrow> WithBinaryData b i
               | None \<Rightarrow> WithSourceCode (or_empty (sourceCode r)) i),
          set_property c1 (cacheKey c p)
            \<lparr>entry_ctime = node_ctime n, entry_size = node_size n, entry_info = i\<rparr>,
          w2))"
  using assms
  by (auto simp add: getHashForPathSync_def statSync_def Let_def split: option.split)

lemma own_entry_not_fresh:
  assumes "map_of (changeCache c) key = Some e"
    and "\<not> (entry_ctime e \<ge> node_ctime n \<and> entry_size e = node_size n)"
  shows "\<not> (truthy_value (get_property c key) \<and> unchanged_since (get_property c key) n)"
    and "truthy_value (get_property c key)"
  using assms by (simp_all add: get_property_own unchanged_since_def truthy_value_def)

lemma no_property_not_fresh:
  assumes "get_property c key = Undefined"
  shows "\<not> (truthy_value (get_property c key) \<and> unchanged_since (get_property c key) n)"
    and "\<not> truthy_value (get_property c key)"
  using assms by (simp_all add: truthy_value_def)

text \<open>
  A lookup changes no own property other than the one under its own key and the one
  under the key \<open>cacheEntry\<close>.
\<close>

lemma lookup_frame:
  assumes "k \<noteq> cacheKey c p" and "k \<noteq> js ''cacheEntry''"
  shows "map_of (changeCache (fst (snd (getHashForPathSync P p c w)))) k = map_of (changeCache c) k"
  using assms
  by (auto simp add: getHashForPathSync_def Let_def update_conv' delete_conv'
      set_property_def delete_property_def
      split: option.split prod.split sum.split)

lemma lookup_miss_x:
  assumes "\<not> failOnCacheMiss c" and "files w p = Some file_x"
    and "\<not> (truthy_value (get_property c (cacheKey c p))
            \<and> unchanged_since (get_property c (cacheKey c p)) file_x)"
    and "isInNodeModules p = False"
  shows "fst (getHashForPathSync sample_platform p c w) = Inr (WithSourceCode [0x78] info_x)
         \<and> fst (snd (getHashForPathSync sample_platform p c w)) =
             set_property
               (if truthy_value (get_property c (cacheKey c p))
                then delete_property c (js ''cacheEntry'') else c)
               (cacheKey c p) entry_x"
proof -
  have isf: "node_isFile file_x"
    by (simp add: file_x_def)
  have f: "files (log_call (StatCall p) w) p = Some file_x"
    using assms(2) by simp
  have h: "sha1_hex sample_platform = hex"
    by (simp add: sample_platform_def)
  have st: "node_ctime file_x = 1000" "node_size file_x = 1"
    by (simp_all add: file_x_def)
  show ?thesis
    using lookup_miss[OF assms(1,2) isf assms(3) calculate_text[OF f isf detect_x, of sample_platform]]
    by (simp add: Let_def or_empty_def text_x minified_x sourcemap_x assms(4) h hex_x st
        info_x_def entry_x_def)
qed

text \<open>
  C9. When no encoding is detected, \<open>calculateHashForFile\<close> and
  \<open>calculateHashForFileSync\<close> return the digest of the raw bytes with \<open>binaryData\<close> the
  buffer and \<open>sourceCode\<close> null; and \<open>getHashForPath\<close> and \<open>getHashForPathSync\<close> (in permissive
  mode, when the cache does not answer) return the binary data with \<open>isFileBinary\<close> true
  and with \<open>isMinified\<close> and \<open>hasSourceMap\<close> computed on the empty string, both false.
\<close>

theorem binary_result:
  assumes "\<not> failOnCacheMiss c"
    and "files w p = Some n" and "node_isFile n"
    and "detectFileEncoding (node_content n) = DetUndefined"
    and "\<not> (truthy_value (get_property c (cacheKey c p))
            \<and> unchanged_since (get_property c (cacheKey c p)) n)"
  shows "fst (calculateHashForFile P p w) =
           Inr \<lparr>sourceCode = None, digest = sha1_hex P (node_content n),
                binaryData = Some (node_content n)\<rparr>
         \<and> fst (calculateHashForFileSync P p w) =
           Inr \<lparr>sourceCode = None, digest = sha1_hex P (node_content n),
                binaryData = Some (node_content n)\<rparr>
         \<and> fst (getHashForPath P p c w) =
           Inr (WithBinaryData (node_content n)
                  \<lparr>info_hash = sha1_hex P (node_content n),
                   info_isMinified = contentsAreMinified [],
                   info_isInNodeModules = isInNodeModules p,
                   info_hasSourceMap = hasSourceMap [],
                   info_isFileBinary = True\<rparr>)
         \<and> fst (getHashForPathSync P p c w) =
           Inr (WithBinaryData (node_content n)
                  \<lparr>info_hash = sha1_hex P (node_content n),
                   info_isMinified = contentsAreMinified [],
                   info_isInNodeModules = isInNodeModules p,
                   info_hasSourceMap = hasSourceMap [],
                   info_isFileBinary = True\<rparr>)
         \<and> contentsAreMinified [] = False \<and> hasSourceMap [] = False"
proof -
  have "files (log_call (StatCall p) w) p = Some n"
    using assms(2) by simp
  from lookup_miss[OF assms(1,2,3,5) calculate_binary[OF this assms(3,4), of P]]
  have "fst (getHashForPathSync P p c w) =
           Inr (WithBinaryData (node_content n)
                  \<lparr>info_hash = sha1_hex P (node_content n),
                   info_isMinified = contentsAreMinified [],
                   info_isInNodeModules = isInNodeModules p,
                   info_hasSourceMap = hasSourceMap [],
                   info_isFileBinary = True\<rparr>)"
    by (simp add: or_empty_def Let_def)
  then show ?thesis
    using calculate_binary[OF assms(2,3,4), of P]
    by (simp add: getHashForPath_sync calculateHashForFile_sync
        contentsAreMinified_empty hasSourceMap_empty)
qed

theorem binary_result_witness:
  "\<not> failOnCacheMiss sample_cache
   \<and> files binary_world (js ''/app/z.bin'') = Some file_zeros \<and> node_isFile file_zeros
   \<and> detectFileEncoding (node_content file_zeros) = DetUndefined
   \<and> get_property sample_cache (cacheKey sample_cache (js ''/app/z.bin'')) = Undefined
   \<and> fst (calculateHashForFile sample_platform (js ''/app/z.bin'') binary_world) =
           Inr \<lparr>sourceCode = None, digest = sha1_hex sample_platform (node_content file_zeros),
                binaryData = Some (node_content file_zeros)\<rparr>
   \<and> fst (getHashForPath sample_platform (js ''/app/z.bin'') sample_cache binary_world) =
           Inr (WithBinaryData (node_content file_zeros)
                  \<lparr>info_hash = sha1_hex sample_platform (node_content file_zeros),
                   info_isMinified = False,
                   info_isInNodeModules = False,
                   info_hasSourceMap = False,
                   info_isFileBinary = True\<rparr>)
   \<and> fst (getHashForPathSync sample_platform (js ''/app/z.bin'') sample_cache binary_world) =
           Inr (WithBinaryData (node_content file_zeros)
                  \<lparr>info_hash = sha1_hex sample_platform (node_content file_zeros),
                   info_isMinified = False,
                   info_isInNodeModules = False,
                   info_hasSourceMap = False,
                   info_isFileBinary = True\<rparr>)"
proof -
  have 1: "\<not> failOnCacheMiss sample_cache"
    by (simp add: sample_cache_def)
  have 2: "files binary_world (js ''/app/z.bin'') = Some file_zeros"
    by (simp add: binary_world_def js_def)
  have 3: "node_isFile file_zeros"
    by (simp add: file_zeros_def)
  have k: "cacheKey sample_cache (js ''/app/z.bin'') = js ''/z.bin''"
    by (simp add: cacheKey_def sample_cache_def truthy_def toString_def js_def)
  have 5: "get_property sample_cache (cacheKey sample_cache (js ''/app/z.bin'')) = Undefined"
    unfolding k
    by (simp add: get_property_def sample_cache_def object_prototype_names_def js_def)
  from binary_result[OF 1 2 3 detect_zeros no_property_not_fresh(1)[OF 5], of sample_platform]
  show ?thesis
    using 1 2 3 detect_zeros 5 by (simp add: node_modules_z)
qed

text \<open>
  C4. A lookup of \<open>/app/a.js\<close>, whose entry under the key \<open>a.js\<close> is stale, replaces that
  entry; the claim says no entry under another key is removed. The source's
  \<open>delete this.changeCache.cacheEntry\<close> removes the entry under the key \<open>cacheEntry\<close>
  (the file \<open>/app/cacheEntry\<close>), which the lookup was not about; so does the
  asynchronous lookup.
\<close>

theorem stale_lookup_deletes_cacheEntry:
  "cacheKey stale_cache (js ''/app/a.js'') = js ''a.js''
   \<and> js ''cacheEntry'' \<noteq> js ''a.js''
   \<and> map_of (changeCache stale_cache) (js ''cacheEntry'') = Some entry_x
   \<and> map_of (changeCache (fst (snd (getHashForPathSync sample_platform (js ''/app/a.js'')
                                      stale_cache sample_world)))) (js ''cacheEntry'') = None
   \<and> map_of (changeCache (fst (snd (getHashForPathSync sample_platform (js ''/app/a.js'')
                                      stale_cache sample_world)))) (js ''a.js'') = Some entry_x
   \<and> map_of (changeCache (fst (snd (getHashForPath sample_platform (js ''/app/a.js'')
                                      stale_cache sample_world)))) (js ''cacheEntry'') = None"
proof -
  have 1: "\<not> failOnCacheMiss stale_cache"
    by (simp add: stale_cache_def)
  have k: "cacheKey stale_cache (js ''/app/a.js'') = js ''a.js''"
    by (simp add: cacheKey_def stale_cache_def truthy_def toString_def js_def)
  have ne: "js ''cacheEntry'' \<noteq> js ''a.js''"
    by (simp add: js_def)
  have old: "map_of (changeCache stale_cache) (js ''cacheEntry'') = Some entry_x"
    by (simp add: stale_cache_def)
  have stale: "map_of (changeCache stale_cache) (cacheKey stale_cache (js ''/app/a.js''))
                 = Some (entry_x\<lparr>entry_ctime := 500\<rparr>)"
    unfolding k using ne by (simp add: stale_cache_def)
  have older: "\<not> (entry_ctime (entry_x\<lparr>entry_ctime := 500\<rparr>) \<ge> node_ctime file_x
                  \<and> entry_size (entry_x\<lparr>entry_ctime := 500\<rparr>) = node_size file_x)"
    by (simp add: file_x_def)
  have "changeCache (fst (snd (getHashForPathSync sample_platform (js ''/app/a.js'')
                                 stale_cache sample_world)))
          = AList.update (js ''a.js'') entry_x (AList.delete (js ''cacheEntry'') (changeCache stale_cache))"
    using lookup_miss_x[OF 1 sample_file own_entry_not_fresh(1)[OF stale older] node_modules_a]
      own_entry_not_fresh(2)[OF stale older] stale[unfolded k] ne
    by (simp add: k set_property_def delete_property_def delete_conv')
  then show ?thesis
    using k ne old by (simp add: update_conv' delete_conv' getHashForPath_sync)
qed

section \<open>Snapshots\<close>

lemma loadFromFile_flags:
  assumes "fst (loadFromFile P file fo w) = Inr c"
  shows "failOnCacheMiss c = False \<and> appRoot c = JBool (case fo of None \<Rightarrow> True | Some b \<Rightarrow> b)"
  using assms
  by (auto simp: loadFromFile_def new_FileChangedCache_def Let_def
      split: prod.splits sum.splits)

lemma save_ok:
  assumes "fst (save P path x w) = Inr ()"
  shows "files (snd (save P path x w)) =
           (files w)(path \<mapsto> \<lparr>node_ctime = clock w,
              node_size = length (gzip P (buffer_from utf8 (JSON_stringify P (changeCache x)))),
              node_isFile = True,
              node_content = gzip P (buffer_from utf8 (JSON_stringify P (changeCache x)))\<rparr>)"
  using assms
  by (auto simp: save_def writeFile_def Let_def split: option.splits if_splits)

text \<open>
  \<open>save\<close> writes the own properties of \<open>changeCache\<close>, and when unzipping and parsing give
  back what was zipped and written, \<open>loadFromFile\<close> of the same path returns an instance
  with these own properties.
\<close>

lemma load_after_save:
  assumes "gunzip P (gzip P (buffer_from utf8 (JSON_stringify P (changeCache x))))
             = Inr (buffer_from utf8 (JSON_stringify P (changeCache x)))"
    and "JSON_parse P (buffer_toString utf8 (buffer_from utf8 (JSON_stringify P (changeCache x))))
             = Inr (changeCache x)"
    and "fst (save P path x w) = Inr ()"
  shows "fst (loadFromFile P path fo (snd (save P path x w))) =
           Inr \<lparr>appRoot = JBool (case fo of None \<Rightarrow> True | Some b \<Rightarrow> b),
                failOnCacheMiss = False, changeCache = changeCache x,
                changeCache_prototype = None\<rparr>"
  using assms(1,2) save_ok[OF assms(3)]
  by (simp add: loadFromFile_def readFileSync_def new_FileChangedCache_def Let_def)

lemma sample_json:
  "JSON_parse sample_platform (buffer_toString utf8
      (buffer_from utf8 (JSON_stringify sample_platform (changeCache sample_cache))))
    = Inr (changeCache sample_cache)"
  by code_simp

lemma sample_zip:
  "gunzip sample_platform (gzip sample_platform b) = Inr b"
  by (simp add: sample_platform_def sample_gzip_def sample_gunzip_def)

lemma sample_save: "fst (save sample_platform (js ''/snap'') sample_cache sample_world) = Inr ()"
  by (simp add: save_def writeFile_def Let_def sample_world_def js_def)

lemma snapshot_files:
  "files snapshot_world (js ''/app/b.js'') = Some file_x"
  unfolding snapshot_world_def save_ok[OF sample_save]
  by (simp add: sample_world_def js_def)

text \<open>
  C3. The claim says an instance made by \<open>loadFromFile\<close> with the default arguments has
  \<open>failOnCacheMiss\<close> true, so that the lookup of a key absent from the snapshot fails.
  The source passes its \<open>failOnCacheMiss\<close> as the only constructor argument: it becomes
  \<open>appRoot\<close>, and \<open>failOnCacheMiss\<close> takes the constructor's default, false. The instance
  loaded from the saved sample is permissive, and the lookup of \<open>/app/b.js\<close>, absent from
  the snapshot, reads and hashes the file.
\<close>

theorem loadFromFile_default_is_permissive:
  "fst (loadFromFile sample_platform (js ''/snap'') None snapshot_world) = Inr loaded_cache
   \<and> failOnCacheMiss loaded_cache = False
   \<and> appRoot loaded_cache = JBool True
   \<and> map_of (changeCache loaded_cache) (cacheKey loaded_cache (js ''/app/b.js'')) = None
   \<and> fst (getHashForPathSync sample_platform (js ''/app/b.js'') loaded_cache snapshot_world)
       = Inr (WithSourceCode [0x78] info_x)"
proof -
  have load: "fst (loadFromFile sample_platform (js ''/snap'') None snapshot_world) = Inr loaded_cache"
    unfolding snapshot_world_def
    using load_after_save[OF sample_zip sample_json sample_save, of None]
    by (simp add: loaded_cache_def sample_cache_def)
  have 1: "\<not> failOnCacheMiss loaded_cache"
    by (simp add: loaded_cache_def)
  have k: "cacheKey loaded_cache (js ''/app/b.js'') = js ''/app/b.js''"
    by (simp add: cacheKey_def loaded_cache_def truthy_def toString_def js_def)
  have none: "map_of (changeCache loaded_cache) (cacheKey loaded_cache (js ''/app/b.js'')) = None"
    unfolding k by (simp add: loaded_cache_def js_def)
  have undef: "get_property loaded_cache (cacheKey loaded_cache (js ''/app/b.js'')) = Undefined"
    unfolding k
    by (simp add: get_property_def loaded_cache_def object_prototype_names_def js_def)
  have "fst (getHashForPathSync sample_platform (js ''/app/b.js'') loaded_cache snapshot_world)
       = Inr (WithSourceCode [0x78] info_x)"
    using lookup_miss_x[OF 1 snapshot_files no_property_not_fresh(1)[OF undef] node_modules_b]
    by simp
  with load 1 none show ?thesis
    by (simp add: loaded_cache_def)
qed

subsection \<open>An entry stored under the key \<open>__proto__\<close>\<close>

lemma root_key_proto: "cacheKey root_cache (js ''/app/__proto__'') = js ''__proto__''"
  by (simp add: cacheKey_def root_cache_def truthy_def toString_def js_def)

lemma cached_key_proto: "cacheKey cached_cache (js ''/app/__proto__'') = js ''__proto__''"
  by (simp add: cacheKey_def cached_cache_def root_cache_def truthy_def toString_def js_def)

lemma root_proto_inherited: "get_property root_cache (js ''__proto__'') = Inherited"
  by (simp add: get_property_def root_cache_def object_prototype_names_def js_def)

lemma cached_proto_entry: "get_property cached_cache (js ''__proto__'') = EntryObject entry_x"
  by (simp add: get_property_def cached_cache_def root_cache_def js_def)

lemma reloaded_proto_inherited: "get_property reloaded_cache (js ''__proto__'') = Inherited"
  by (simp add: get_property_def reloaded_cache_def object_prototype_names_def js_def)

lemma proto_file: "files proto_world (js ''/app/__proto__'') = Some file_x"
  by (simp add: proto_world_def js_def)

lemma node_modules_proto: "isInNodeModules (js ''/app/__proto__'') = False"
  by (simp add: isInNodeModules_def node_modules_at_def atom_asar_at_def js_def is_sep_def lower_def)

lemma cached_json:
  "JSON_parse sample_platform (buffer_toString utf8
      (buffer_from utf8 (JSON_stringify sample_platform (changeCache cached_cache))))
    = Inr (changeCache cached_cache)"
  by code_simp

lemma cached_save: "fst (save sample_platform (js ''/snap'') cached_cache proto_world) = Inr ()"
  by (simp add: save_def writeFile_def Let_def proto_world_def js_def)

text \<open>
  C7. The claim says that loading what was saved gives back every key of the instance
  with its fields. The lookup of \<open>/app/__proto__\<close> under the root \<open>/app/\<close> stores its entry
  with \<open>this.changeCache['__proto__'] = ...\<close>, which on a plain object sets the prototype
  and creates no property of its own. The instance serves that file from the cache
  afterwards (the next lookup returns the stored facts and reads nothing), but
  \<open>JSON.stringify\<close> writes own properties only: the snapshot holds the entry of \<open>a.js\<close>
  alone, and in the instance loaded from it the key \<open>__proto__\<close> reads as the inherited
  object, not as the entry. Asked in strict mode under the same root, the instance that
  was saved returns the stored facts and the loaded mapping returns \<open>undefined\<close>.
\<close>

theorem prototype_entry_not_saved:
  "cacheKey root_cache (js ''/app/__proto__'') = js ''__proto__''
   \<and> fst (snd (getHashForPathSync sample_platform (js ''/app/__proto__'') root_cache proto_world))
       = cached_cache
   \<and> get_property cached_cache (js ''__proto__'') = EntryObject entry_x
   \<and> getHashForPathSync sample_platform (js ''/app/__proto__'') cached_cache proto_world
       = (Inr (Info info_x), cached_cache,
          proto_world\<lparr>calls := [StatCall (js ''/app/__proto__'')]\<rparr>)
   \<and> fst (save sample_platform (js ''/snap'') cached_cache proto_world) = Inr ()
   \<and> fst (loadFromFile sample_platform (js ''/snap'') (Some False)
             (snd (save sample_platform (js ''/snap'') cached_cache proto_world)))
       = Inr reloaded_cache
   \<and> changeCache reloaded_cache = [(js ''a.js'', entry_x)]
   \<and> get_property reloaded_cache (js ''__proto__'') = Inherited
   \<and> fst (getHashForPathSync sample_platform (js ''/app/__proto__'')
             (cached_cache\<lparr>failOnCacheMiss := True\<rparr>) proto_world)
       = Inr (Info info_x)
   \<and> fst (getHashForPathSync sample_platform (js ''/app/__proto__'')
             (reloaded_cache\<lparr>appRoot := JString (js ''/app/''), failOnCacheMiss := True\<rparr>)
             proto_world)
       = Inr ReturnsUndefined"
proof -
  have 1: "\<not> failOnCacheMiss root_cache"
    by (simp add: root_cache_def)
  have miss: "\<not> (truthy_value (get_property root_cache (cacheKey root_cache (js ''/app/__proto__'')))
                 \<and> unchanged_since (get_property root_cache (cacheKey root_cache (js ''/app/__proto__''))) file_x)"
    unfolding root_key_proto root_proto_inherited by (simp add: unchanged_since_def)
  have own: "map_of (changeCache root_cache) (js ''__proto__'') = None"
    by (simp add: root_cache_def js_def)
  have del: "delete_property root_cache (js ''cacheEntry'') = root_cache"
    by (simp add: delete_property_def root_cache_def AList.delete_eq js_def)
  have store: "fst (snd (getHashForPathSync sample_platform (js ''/app/__proto__'') root_cache proto_world))
       = cached_cache"
    using lookup_miss_x[OF 1 proto_file miss node_modules_proto]
    by (simp add: root_key_proto root_proto_inherited truthy_value_def del set_property_def own
        cached_cache_def)
  have 2: "\<not> failOnCacheMiss cached_cache"
    by (simp add: cached_cache_def root_cache_def)
  have isf: "node_isFile file_x"
    by (simp add: file_x_def)
  have hit: "getHashForPathSync sample_platform (js ''/app/__proto__'') cached_cache proto_world
       = (Inr (Info info_x), cached_cache,
          proto_world\<lparr>calls := [StatCall (js ''/app/__proto__'')]\<rparr>)"
    using 2 proto_file isf
    by (simp add: getHashForPathSync_def statSync_def Let_def cached_key_proto cached_proto_entry
        truthy_value_def unchanged_since_def dot_info_def entry_x_def file_x_def log_call_def
        proto_world_def)
  have load: "fst (loadFromFile sample_platform (js ''/snap'') (Some False)
             (snd (save sample_platform (js ''/snap'') cached_cache proto_world)))
       = Inr reloaded_cache"
    using load_after_save[OF sample_zip cached_json cached_save, of "Some False"]
    by (simp add: reloaded_cache_def cached_cache_def root_cache_def)
  have own': "changeCache reloaded_cache = [(js ''a.js'', entry_x)]"
    by (simp add: reloaded_cache_def)
  have s1: "fst (getHashForPathSync sample_platform (js ''/app/__proto__'')
             (cached_cache\<lparr>failOnCacheMiss := True\<rparr>) proto_world)
       = Inr (Info info_x)"
    by (simp add: getHashForPathSync_def Let_def cacheKey_def get_property_def cached_cache_def
        root_cache_def truthy_def toString_def truthy_value_def dot_info_def entry_x_def js_def)
  have s2: "fst (getHashForPathSync sample_platform (js ''/app/__proto__'')
             (reloaded_cache\<lparr>appRoot := JString (js ''/app/''), failOnCacheMiss := True\<rparr>)
             proto_world)
       = Inr ReturnsUndefined"
    by (simp add: getHashForPathSync_def Let_def cacheKey_def get_property_def reloaded_cache_def
        object_prototype_names_def truthy_def toString_def truthy_value_def dot_info_def js_def)
  show ?thesis
    using root_key_proto store cached_proto_entry hit cached_save load own' reloaded_proto_inherited
      s1 s2
    by blast
qed

section \<open>The hash of a text file\<close>

lemma han_utf8: "buffer_from utf8 han = [0xE4, 0xA1, 0x88]"
  by (simp add: buffer_from_def han_def utf8_unit_def)

lemma han_utf16: "buffer_from utf16le han = [0x48, 0x48]"
  by (simp add: buffer_from_def han_def)

lemma decode_han_utf8: "utf8_decode [0xE4, 0xA1, 0x88] = [0x4848]"
  by (simp add: utf8_decode_def code_units_def)

lemma decode_han_utf16: "utf8_decode [0x48, 0x48] = [0x48, 0x48]"
  by (simp add: utf8_decode_def)

lemma detect_han_utf8: "detectFileEncoding [0xE4, 0xA1, 0x88] = DetEncoding utf8"
  by (simp add: detectFileEncoding_def encodings_def buffer_toString_def decode_han_utf8
      containsControlCharacters_iff control_like_def)

lemma detect_han_utf16: "detectFileEncoding [0x48, 0x48] = DetEncoding utf8"
  by (simp add: detectFileEncoding_def encodings_def buffer_toString_def decode_han_utf16
      containsControlCharacters_iff control_like_def)

text \<open>
  Whatever the digest function, the two files reach it with different bytes. (The SHA-1
  of \<open>48 48\<close> starts \<open>fc5d4b91\<close>, that of \<open>e4 a1 88\<close> starts \<open>55268a30\<close>.)
\<close>

lemma han_hash_inputs:
  "digest (projr (fst (calculateHashForFileSync P (js ''/t/utf8.txt'') encoding_world)))
     = sha1_hex P [0xE4, 0xA1, 0x88]
   \<and> digest (projr (fst (calculateHashForFileSync P (js ''/t/utf16.txt'') encoding_world)))
     = sha1_hex P [0x48, 0x48]"
proof -
  have f1: "files encoding_world (js ''/t/utf8.txt'') =
      Some \<lparr>node_ctime = 1000, node_size = 3, node_isFile = True, node_content = [0xE4, 0xA1, 0x88]\<rparr>"
    by (simp add: encoding_world_def han_utf8 js_def)
  have f2: "files encoding_world (js ''/t/utf16.txt'') =
      Some \<lparr>node_ctime = 1000, node_size = 2, node_isFile = True, node_content = [0x48, 0x48]\<rparr>"
    by (simp add: encoding_world_def han_utf16 js_def)
  show ?thesis
    using calculate_text[OF f1, of utf8 P] calculate_text[OF f2, of utf8 P]
    by (simp add: detect_han_utf8 detect_han_utf16 buffer_toString_def decode_han_utf8
        decode_han_utf16 buffer_from_def utf8_unit_def)
qed

text \<open>
  C8, as stated, fails. The text U+4848 stored in UTF-8 is \<open>e4 a1 88\<close> and stored in
  UTF-16LE is \<open>48 48\<close>. Both files are classified as text: detection tries \<open>utf8\<close> first
  and \<open>48 48\<close> is the well-formed UTF-8 of \<open>HH\<close>, so the second file is decoded as \<open>HH\<close>
  and the two digests are taken of different bytes.
\<close>

theorem same_text_different_hash:
  "node_content (the (files encoding_world (js ''/t/utf8.txt''))) = buffer_from utf8 han
   \<and> node_content (the (files encoding_world (js ''/t/utf16.txt''))) = buffer_from utf16le han
   \<and> fst (calculateHashForFileSync sample_platform (js ''/t/utf8.txt'') encoding_world)
       = Inr \<lparr>sourceCode = Some han, digest = js ''e4a188'', binaryData = None\<rparr>
   \<and> fst (calculateHashForFileSync sample_platform (js ''/t/utf16.txt'') encoding_world)
       = Inr \<lparr>sourceCode = Some (js ''HH''), digest = js ''4848'', binaryData = None\<rparr>
   \<and> js ''e4a188'' \<noteq> js ''4848''
   \<and> fst (calculateHashForFile sample_platform (js ''/t/utf8.txt'') encoding_world)
       = Inr \<lparr>sourceCode = Some han, digest = js ''e4a188'', binaryData = None\<rparr>
   \<and> fst (calculateHashForFile sample_platform (js ''/t/utf16.txt'') encoding_world)
       = Inr \<lparr>sourceCode = Some (js ''HH''), digest = js ''4848'', binaryData = None\<rparr>"
proof -
  have f1: "files encoding_world (js ''/t/utf8.txt'') =
      Some \<lparr>node_ctime = 1000, node_size = 3, node_isFile = True, node_content = [0xE4, 0xA1, 0x88]\<rparr>"
    by (simp add: encoding_world_def han_utf8 js_def)
  have f2: "files encoding_world (js ''/t/utf16.txt'') =
      Some \<lparr>node_ctime = 1000, node_size = 2, node_isFile = True, node_content = [0x48, 0x48]\<rparr>"
    by (simp add: encoding_world_def han_utf16 js_def)
  have c1: "fst (calculateHashForFileSync sample_platform (js ''/t/utf8.txt'') encoding_world)
       = Inr \<lparr>sourceCode = Some han, digest = js ''e4a188'', binaryData = None\<rparr>"
    using calculate_text[OF f1, of utf8 sample_platform]
    by (simp add: detect_han_utf8 buffer_toString_def decode_han_utf8 han_def
        sample_platform_def buffer_from_def utf8_unit_def hex_def hexdigit_def js_def)
  have c2: "fst (calculateHashForFileSync sample_platform (js ''/t/utf16.txt'') encoding_world)
       = Inr \<lparr>sourceCode = Some (js ''HH''), digest = js ''4848'', binaryData = None\<rparr>"
    using calculate_text[OF f2, of utf8 sample_platform]
    by (simp add: detect_han_utf16 buffer_toString_def decode_han_utf16
        sample_platform_def buffer_from_def utf8_unit_def hex_def hexdigit_def js_def)
  have ne: "js ''e4a188'' \<noteq> js ''4848''"
    by (simp add: js_def)
  show ?thesis
    using c1 c2 ne by (simp add: f1 f2 han_utf8 han_utf16 calculateHashForFile_sync)
qed

text \<open>
  C8, amended. The hash of a file classified as text is the digest of the UTF-8 bytes
  of the text decoded with the encoding that detection selected; two files whose
  detected decodings are the same text get the same result, whatever their bytes. This
  holds of \<open>calculateHashForFile\<close> and of \<open>calculateHashForFileSync\<close>.
\<close>

theorem hash_of_detected_text:
  assumes "files w1 p1 = Some n1" and "node_isFile n1"
    and "detectFileEncoding (node_content n1) = DetEncoding x1"
    and "files w2 p2 = Some n2" and "node_isFile n2"
    and "detectFileEncoding (node_content n2) = DetEncoding x2"
    and "buffer_toString x1 (node_content n1) = buffer_toString x2 (node_content n2)"
  shows "fst (calculateHashForFile P p1 w1) =
           Inr \<lparr>sourceCode = Some (buffer_toString x1 (node_content n1)),
                digest = sha1_hex P (buffer_from utf8 (buffer_toString x1 (node_content n1))),
                binaryData = None\<rparr>
         \<and> fst (calculateHashForFile P p2 w2) = fst (calculateHashForFile P p1 w1)
         \<and> fst (calculateHashForFileSync P p1 w1) = fst (calculateHashForFile P p1 w1)
         \<and> fst (calculateHashForFileSync P p2 w2) = fst (calculateHashForFile P p1 w1)"
  using calculate_text[OF assms(1,2,3), of P] calculate_text[OF assms(4,5,6), of P] assms(7)
  by (simp add: calculateHashForFile_sync)

lemma ascii_utf8:
  "buffer_from utf8 ascii_text =
     [0x73, 0x65, 0x76, 0x65, 0x6E, 0x74, 0x65, 0x65, 0x6E, 0x20, 0x6C, 0x65, 0x74, 0x74, 0x65, 0x72, 0x73]"
  by (simp add: buffer_from_def ascii_text_def js_def utf8_unit_def)

lemma ascii_utf16:
  "buffer_from utf16le ascii_text =
     [0x73, 0, 0x65, 0, 0x76, 0, 0x65, 0, 0x6E, 0, 0x74, 0, 0x65, 0, 0x65, 0, 0x6E, 0, 0x20, 0,
      0x6C, 0, 0x65, 0, 0x74, 0, 0x74, 0, 0x65, 0, 0x72, 0, 0x73, 0]"
  by (simp add: buffer_from_def ascii_text_def js_def)

lemma detect_ascii_utf8: "detectFileEncoding (buffer_from utf8 ascii_text) = DetEncoding utf8"
  unfolding ascii_utf8
  by (simp add: detectFileEncoding_def encodings_def buffer_toString_def utf8_decode_def
      containsControlCharacters_iff control_like_def)

lemma detect_ascii_utf16: "detectFileEncoding (buffer_from utf16le ascii_text) = DetEncoding utf16le"
  unfolding ascii_utf16
  by (simp add: detectFileEncoding_def encodings_def buffer_toString_def utf8_decode_def
      containsControlCharacters_iff control_like_def)

lemma decode_ascii_utf8: "buffer_toString utf8 (buffer_from utf8 ascii_text) = ascii_text"
  unfolding ascii_utf8 by (simp add: buffer_toString_def utf8_decode_def ascii_text_def js_def)

lemma decode_ascii_utf16: "buffer_toString utf16le (buffer_from utf16le ascii_text) = ascii_text"
  unfolding ascii_utf16 by (simp add: buffer_toString_def ascii_text_def js_def)

theorem hash_of_detected_text_witness:
  "files ascii_world (js ''/t/utf8.txt'') =
      Some \<lparr>node_ctime = 1000, node_size = 17, node_isFile = True,
            node_content = buffer_from utf8 ascii_text\<rparr>
   \<and> files ascii_world (js ''/t/utf16.txt'') =
      Some \<lparr>node_ctime = 1000, node_size = 34, node_isFile = True,
            node_content = buffer_from utf16le ascii_text\<rparr>
   \<and> detectFileEncoding (buffer_from utf8 ascii_text) = DetEncoding utf8
   \<and> detectFileEncoding (buffer_from utf16le ascii_text) = DetEncoding utf16le
   \<and> buffer_from utf8 ascii_text \<noteq> buffer_from utf16le ascii_text
   \<and> fst (calculateHashForFile sample_platform (js ''/t/utf8.txt'') ascii_world) =
           Inr \<lparr>sourceCode = Some ascii_text,
                digest = sha1_hex sample_platform (buffer_from utf8 ascii_text),
                binaryData = None\<rparr>
   \<and> fst (calculateHashForFile sample_platform (js ''/t/utf16.txt'') ascii_world)
       = fst (calculateHashForFile sample_platform (js ''/t/utf8.txt'') ascii_world)
   \<and> fst (calculateHashForFileSync sample_platform (js ''/t/utf16.txt'') ascii_world)
       = fst (calculateHashForFile sample_platform (js ''/t/utf8.txt'') ascii_world)"
proof -
  have f1: "files ascii_world (js ''/t/utf8.txt'') =
      Some \<lparr>node_ctime = 1000, node_size = 17, node_isFile = True,
            node_content = buffer_from utf8 ascii_text\<rparr>"
    by (simp add: ascii_world_def js_def)
  have f2: "files ascii_world (js ''/t/utf16.txt'') =
      Some \<lparr>node_ctime = 1000, node_size = 34, node_isFile = True,
            node_content = buffer_from utf16le ascii_text\<rparr>"
    by (simp add: ascii_world_def js_def)
  have ne: "buffer_from utf8 ascii_text \<noteq> buffer_from utf16le ascii_text"
    unfolding ascii_utf8 ascii_utf16 by simp
  from hash_of_detected_text[OF f1 _ _ f2, of utf8 utf16le sample_platform]
  show ?thesis
    using f1 f2 ne
    by (simp add: detect_ascii_utf8 detect_ascii_utf16 decode_ascii_utf8 decode_ascii_utf16)
qed

end
